theory Spec2Isabelle
  imports Main
begin

section \<open>Values, errors and the outside world\<close>

text \<open>
  The client is three Python modules: \<open>helper_functions.py\<close> (credentials),
  \<open>salesforce_authentication.py\<close> (SOAP login) and \<open>salesforce_rest_api.py\<close>
  (query builder, paginated executor, field discovery, public entry point).

  Python exceptions are values of \<open>error\<close>; a function that can raise returns
  \<open>error + 'a\<close> with \<open>Inl\<close> for the exception. \<open>Exception msg\<close> is the
  \<open>raise Exception(msg)\<close> of the source, \<open>KeyError k\<close> a missing key of
  \<open>os.environ\<close> or of a dict, \<open>ParseError\<close> what \<open>ET.fromstring\<close> raises,
  \<open>JSONDecodeError\<close> what \<open>response.json()\<close> raises, \<open>AttributeError\<close> what
  \<open>data.get\<close> raises when \<open>data\<close> is not a dict, \<open>TypeError\<close> what
  \<open>data["fields"]\<close> raises when \<open>data\<close> is not a dict and what \<open>",".join\<close>
  raises on an item that is not a string, and \<open>ConnectionError\<close> what
  \<open>requests\<close> raises when no response arrives.
\<close>

datatype error =
    Exception string
  | KeyError string
  | ParseError
  | JSONDecodeError
  | AttributeError
  | TypeError
  | ConnectionError

text \<open>JSON values; a dict keeps its members in document order.\<close>

datatype json =
    JNull
  | JBool bool
  | JNum int
  | JStr string
  | JList "json list"
  | JDict "(string \<times> json) list"

type_synonym dict = "(string \<times> json) list"

text \<open>
  A JSON object as \<open>response.json()\<close> returns it, seen through the three members the
  client reads: \<open>records\<close> (a list of dicts), \<open>nextRecordsUrl\<close> (a string) and
  \<open>fields\<close> (a list of dicts). Each member may be missing. Objects whose members have
  other types are outside this type.
\<close>

record json_body =
  json_records :: "dict list option"
  json_nextRecordsUrl :: "string option"
  json_fields :: "dict list option"

text \<open>
  What \<open>response.json()\<close> does: it raises when the body is not JSON, it returns a value
  that is not a dict (a list, a string, a number), or it returns a dict.
\<close>

datatype json_reply =
    NotJson
  | NotObject
  | Object json_body

text \<open>
  A \<open>requests.Response\<close>: \<open>status_code\<close>, \<open>.text\<close> and what \<open>.json()\<close> does.
\<close>

record response =
  status_code :: int
  resp_text :: string
  resp_json :: json_reply

text \<open>A request as handed to \<open>requests.post(url, data, headers)\<close> or \<open>requests.get(url, headers)\<close>.\<close>

datatype request =
    Post string string "(string \<times> string) list"
  | Get string "(string \<times> string) list"

text \<open>
  The world outside the process: the environment variables, the responses the server
  will give to the coming requests (in order), the requests sent so far, and the lines
  printed so far.
\<close>

record world =
  environ :: "string \<rightharpoonup> string"
  pending :: "response list"
  sent :: "request list"
  stdout :: "string list"

text \<open>
  An \<open>xml.etree.ElementTree.Element\<close>: its tag in \<open>{uri}local\<close> form, its text and
  its children. Attributes and tails are not read by the client.
\<close>

datatype element = Element (elem_tag: string) (elem_text: "string option") (elem_children: "element list")

section \<open>Python built-ins used by the client\<close>

text \<open>\<open>str(n)\<close> for an integer, as an f-string renders it.\<close>

fun str_nat :: "nat \<Rightarrow> string" where
  "str_nat n = (if n < 10 then [''0123456789'' ! n]
                else str_nat (n div 10) @ [''0123456789'' ! (n mod 10)])"

declare str_nat.simps [simp del]

definition str_int :: "int \<Rightarrow> string" where
  "str_int i = (if i < 0 then CHR ''-'' # str_nat (nat (- i)) else str_nat (nat i))"

text \<open>\<open>sep.join(xs)\<close>.\<close>

fun join :: "string \<Rightarrow> string list \<Rightarrow> string" where
  "join sep [] = []"
| "join sep [x] = x"
| "join sep (x # y # ys) = x @ sep @ join sep (y # ys)"

text \<open>
  \<open>str.upper()\<close> on ASCII text: the letters a to z are mapped to A to Z, every other
  character is kept.
\<close>

definition upper_char :: "char \<Rightarrow> char" where
  "upper_char c =
     (case map_of (zip ''abcdefghijklmnopqrstuvwxyz'' ''ABCDEFGHIJKLMNOPQRSTUVWXYZ'') c of
        None \<Rightarrow> c
      | Some capital \<Rightarrow> capital)"

definition upper :: "string \<Rightarrow> string" where
  "upper s = map upper_char s"

text \<open>Truthiness of an optional list and of an optional integer (\<open>not fields\<close>, \<open>not limit\<close>).\<close>

fun truthy_list :: "'a list option \<Rightarrow> bool" where
  "truthy_list None = False"
| "truthy_list (Some []) = False"
| "truthy_list (Some (x # xs)) = True"

fun truthy_int :: "int option \<Rightarrow> bool" where
  "truthy_int None = False"
| "truthy_int (Some i) = (i \<noteq> 0)"

text \<open>\<open>s.replace(old, new)\<close> where \<open>old\<close> is one character, as in every call the client makes.\<close>

definition replace_char :: "char \<Rightarrow> string \<Rightarrow> string \<Rightarrow> string" where
  "replace_char old new s = concat (map (\<lambda>c. if c = old then new else [c]) s)"

text \<open>
  \<open>xml.sax.saxutils.escape(data, entities)\<close>: the ampersand first, then \<open>>\<close> and
  \<open><\<close>, then every entry of \<open>entities\<close> in the dict's order.
\<close>

fun dict_replace :: "string \<Rightarrow> (char \<times> string) list \<Rightarrow> string" where
  "dict_replace s [] = s"
| "dict_replace s ((k, v) # d) = dict_replace (replace_char k v s) d"

definition escape :: "string \<Rightarrow> (char \<times> string) list \<Rightarrow> string" where
  "escape data entities =
     (let data1 = replace_char (CHR ''&'') ''&amp;'' data;
          data2 = replace_char (CHR ''>'') ''&gt;'' data1;
          data3 = replace_char (CHR ''<'') ''&lt;'' data2
      in if entities \<noteq> [] then dict_replace data3 entities else data3)"

text \<open>\<open>os.environ[key]\<close>.\<close>

definition os_environ :: "string \<Rightarrow> world \<Rightarrow> error + string" where
  "os_environ key w = (case environ w key of None \<Rightarrow> Inl (KeyError key) | Some v \<Rightarrow> Inr v)"

text \<open>
  \<open>requests.post\<close> and \<open>requests.get\<close>: the request is recorded and the next pending
  response is returned; with no response left the call raises.
\<close>

definition requests_post ::
  "string \<Rightarrow> string \<Rightarrow> (string \<times> string) list \<Rightarrow> world \<Rightarrow> (error + response) \<times> world" where
  "requests_post url data headers w =
     (case pending w of
        [] \<Rightarrow> (Inl ConnectionError, w\<lparr>sent := sent w @ [Post url data headers]\<rparr>)
      | r # rs \<Rightarrow> (Inr r, w\<lparr>pending := rs, sent := sent w @ [Post url data headers]\<rparr>))"

definition requests_get ::
  "string \<Rightarrow> (string \<times> string) list \<Rightarrow> world \<Rightarrow> (error + response) \<times> world" where
  "requests_get url headers w =
     (case pending w of
        [] \<Rightarrow> (Inl ConnectionError, w\<lparr>sent := sent w @ [Get url headers]\<rparr>)
      | r # rs \<Rightarrow> (Inr r, w\<lparr>pending := rs, sent := sent w @ [Get url headers]\<rparr>))"

text \<open>\<open>print(line)\<close>.\<close>

definition print :: "string \<Rightarrow> world \<Rightarrow> world" where
  "print line w = w\<lparr>stdout := stdout w @ [line]\<rparr>"

text \<open>
  \<open>Element.iter()\<close>: the element and all its descendants in document order, and the two
  selectors of \<open>ElementPath\<close> that the login path uses: \<open>.//tag\<close> (every descendant
  with the tag, the context element excluded) and \<open>/tag\<close> (every child with the tag).
  \<open>find\<close> returns the first element selected, or \<open>None\<close>.
\<close>

fun iter :: "element \<Rightarrow> element list" where
  "iter (Element t x cs) = Element t x cs # concat (map iter cs)"

definition select_descendant :: "string \<Rightarrow> element list \<Rightarrow> element list" where
  "select_descendant t result =
     concat (map (\<lambda>e. filter (\<lambda>d. elem_tag d = t) (concat (map iter (elem_children e)))) result)"

definition select_child :: "string \<Rightarrow> element list \<Rightarrow> element list" where
  "select_child t result =
     concat (map (\<lambda>e. filter (\<lambda>c. elem_tag c = t) (elem_children e)) result)"

definition soapenv :: "string \<Rightarrow> string" where
  "soapenv name = ''{http://schemas.xmlsoap.org/soap/envelope/}'' @ name"

definition ns :: "string \<Rightarrow> string" where
  "ns name = ''{urn:partner.soap.sforce.com}'' @ name"

text \<open>\<open>root.find('.//soapenv:Body/ns:loginResponse/ns:result/ns:sessionId', namespaces)\<close>.\<close>

definition find_session_id_elem :: "element \<Rightarrow> element option" where
  "find_session_id_elem root =
     (case select_child (ns ''sessionId'')
             (select_child (ns ''result'')
               (select_child (ns ''loginResponse'')
                 (select_descendant (soapenv ''Body'') [root]))) of
        [] \<Rightarrow> None
      | e # _ \<Rightarrow> Some e)"

section \<open>helper\_functions.py\<close>

definition get_credentials :: "string \<Rightarrow> world \<Rightarrow> (error + (string \<times> string) list) \<times> world" where
  "get_credentials integration w =
     (case os_environ (upper integration @ ''_PASSWORD'') w of
        Inl e \<Rightarrow> (Inl e, w)
      | Inr password \<Rightarrow>
          (case os_environ (upper integration @ ''_USERNAME'') w of
             Inl e \<Rightarrow> (Inl e, w)
           | Inr username \<Rightarrow>
               (case os_environ (upper integration @ ''_SECURITY_TOKEN'') w of
                  Inl e \<Rightarrow> (Inl e, w)
                | Inr security_token \<Rightarrow>
                    (Inr [(integration @ ''_password'', password),
                          (integration @ ''_username'', username),
                          (integration @ ''_security_token'', security_token)], w))))"

fun get_nested_values :: "string \<Rightarrow> dict list \<Rightarrow> error + json list" where
  "get_nested_values key [] = Inr []"
| "get_nested_values key (d # ds) =
     (case map_of d key of
        None \<Rightarrow> Inl (KeyError key)
      | Some v \<Rightarrow>
          (case get_nested_values key ds of
             Inl e \<Rightarrow> Inl e
           | Inr vs \<Rightarrow> Inr (v # vs)))"

section \<open>salesforce\_authentication.py\<close>

definition escape_chars :: "string \<Rightarrow> string" where
  "escape_chars string =
     (let extra_entities = [(CHR 0x27, ''&apos;''), (CHR 0x22, ''&quot;'')];
          escaped_string = escape string extra_entities
      in escaped_string)"

definition dq :: string where
  "dq = [CHR 0x22]"

definition nl :: string where
  "nl = [CHR 0x0A]"

definition get_body :: "string \<Rightarrow> string \<Rightarrow> string \<Rightarrow> string" where
  "get_body username password security_token =
     (let formatted_password = escape_chars password;
          formatted_secutiry_token = escape_chars security_token
      in
        ''<?xml version='' @ dq @ ''1.0'' @ dq @ '' encoding='' @ dq @ ''utf-8'' @ dq @ '' ?>'' @ nl @
        ''    <env:Envelope xmlns:xsd='' @ dq @ ''http://www.w3.org/2001/XMLSchema'' @ dq @ nl @
        ''        xmlns:xsi='' @ dq @ ''http://www.w3.org/2001/XMLSchema-instance'' @ dq @ nl @
        ''        xmlns:env='' @ dq @ ''http://schemas.xmlsoap.org/soap/envelope/'' @ dq @ ''>'' @ nl @
        ''      <env:Body>'' @ nl @
        ''        <n1:login xmlns:n1='' @ dq @ ''urn:partner.soap.sforce.com'' @ dq @ ''>'' @ nl @
        ''          <n1:username>'' @ username @ ''</n1:username>'' @ nl @
        ''          <n1:password>'' @ formatted_password @ formatted_secutiry_token @ ''</n1:password>'' @ nl @
        ''        </n1:login>'' @ nl @
        ''      </env:Body>'' @ nl @
        ''    </env:Envelope>'')"

definition get_url :: "world \<Rightarrow> error + string" where
  "get_url w =
     (case os_environ ''SALESFORCE_URL'' w of
        Inl e \<Rightarrow> Inl e
      | Inr base \<Rightarrow> Inr (base @ ''/services/Soap/u/60.0''))"

definition get_headers :: "(string \<times> string) list" where
  "get_headers =
     [(''SOAPAction'', ''login''), (''Content-Type'', ''text/xml''), (''charset'', ''UTF-8'')]"

text \<open>
  \<open>ET.fromstring\<close> is the standard library's parser; it is the parameter
  \<open>fromstring\<close>, which returns \<open>None\<close> where the parser raises \<open>ParseError\<close>.
\<close>

definition extract_session_id ::
  "(string \<Rightarrow> element option) \<Rightarrow> string \<Rightarrow> world \<Rightarrow> (error + string option) \<times> world" where
  "extract_session_id fromstring xml_str w =
     (case fromstring xml_str of
        None \<Rightarrow> (Inl ParseError, w)
      | Some root \<Rightarrow>
          (case find_session_id_elem root of
             Some session_id_elem \<Rightarrow> (Inr (elem_text session_id_elem), w)
           | None \<Rightarrow> (Inr None, print ''sessionId not found in the response.'' w)))"

definition get_session_id ::
  "(string \<Rightarrow> element option) \<Rightarrow> string \<Rightarrow> string \<Rightarrow> string \<Rightarrow> world
     \<Rightarrow> (error + string option) \<times> world" where
  "get_session_id fromstring username password security_token w =
     (case get_url w of
        Inl e \<Rightarrow> (Inl e, w)
      | Inr url \<Rightarrow>
          (case requests_post url (get_body username password security_token) get_headers w of
             (Inl e, w1) \<Rightarrow> (Inl e, w1)
           | (Inr response, w1) \<Rightarrow>
               if status_code response \<noteq> 200
               then (Inl (Exception (''Authentication failed with status code ''
                           @ str_int (status_code response) @ '': '' @ resp_text response)), w1)
               else extract_session_id fromstring (resp_text response) w1))"

section \<open>salesforce\_rest\_api.py\<close>

definition get_query :: "string \<Rightarrow> string list option \<Rightarrow> int option \<Rightarrow> error + string" where
  "get_query object_name field_names limit =
     (if \<not> truthy_list field_names \<and> \<not> truthy_int limit
      then Inl (Exception ''If limit is not provided, you MUST provide a list of fields'')
      else
        let fields_string =
              (case field_names of Some (f # fs) \<Rightarrow> join '','' (f # fs) | _ \<Rightarrow> ''FIELDS(ALL)'');
            limit_string =
              (case limit of
                 Some l \<Rightarrow> if l \<noteq> 0 then ''+LIMIT+'' @ str_int l else ''''
               | None \<Rightarrow> '''')
        in Inr (''queryAll/?q=SELECT+'' @ fields_string @ ''+FROM+'' @ object_name @ limit_string))"

definition subscript :: "(string \<times> 'a) list \<Rightarrow> string \<Rightarrow> error + 'a" where
  "subscript d key = (case map_of d key of None \<Rightarrow> Inl (KeyError key) | Some v \<Rightarrow> Inr v)"

definition fetch_session_id ::
  "(string \<Rightarrow> element option) \<Rightarrow> world \<Rightarrow> (error + string option) \<times> world" where
  "fetch_session_id fromstring w =
     (case get_credentials ''salesforce'' w of
        (Inl e, w1) \<Rightarrow> (Inl e, w1)
      | (Inr credentials, w1) \<Rightarrow>
          (case subscript credentials ''salesforce_username'' of
             Inl e \<Rightarrow> (Inl e, w1)
           | Inr username \<Rightarrow>
               (case subscript credentials ''salesforce_password'' of
                  Inl e \<Rightarrow> (Inl e, w1)
                | Inr password \<Rightarrow>
                    (case subscript credentials ''salesforce_security_token'' of
                       Inl e \<Rightarrow> (Inl e, w1)
                     | Inr security_token \<Rightarrow>
                         get_session_id fromstring username password security_token w1))))"

text \<open>An f-string renders an absent session id as \<open>None\<close>.\<close>

definition bearer :: "string option \<Rightarrow> string" where
  "bearer session_id = ''Bearer '' @ (case session_id of None \<Rightarrow> ''None'' | Some s \<Rightarrow> s)"

text \<open>
  The first statement of \<open>get_rest_query_results\<close>. In the first branch the string
  literal is continued over a line break by a backslash: the blank before the backslash
  and the sixteen blanks that indent the next line are part of the literal.
\<close>

definition query_url :: "string \<Rightarrow> string \<Rightarrow> string option \<Rightarrow> string" where
  "query_url base query next_url =
     (case next_url of
        None \<Rightarrow> base @ '' '' @ ''                '' @ ''/services/data/v60.0/'' @ query
      | Some cursor \<Rightarrow> base @ cursor)"

definition query_failed :: "response \<Rightarrow> error" where
  "query_failed response =
     Exception (''REST query failed with a status of '' @ ''                        ''
                @ str_int (status_code response) @ '': '' @ resp_text response)"

definition page_records :: "json_body \<Rightarrow> dict list" where
  "page_records data = (case json_records data of None \<Rightarrow> [] | Some rs \<Rightarrow> rs)"

function get_rest_query_results ::
  "(string \<Rightarrow> element option) \<Rightarrow> string \<Rightarrow> string option \<Rightarrow> world
     \<Rightarrow> (error + dict list) \<times> world" where
  "get_rest_query_results fromstring query next_url w =
     (case os_environ ''SALESFORCE_URL'' w of
        Inl e \<Rightarrow> (Inl e, w)
      | Inr base \<Rightarrow>
          (case fetch_session_id fromstring w of
             (Inl e, w1) \<Rightarrow> (Inl e, w1)
           | (Inr session_id, w1) \<Rightarrow>
               (case requests_get (query_url base query next_url)
                       [(''Authorization'', bearer session_id),
                        (''Content-Type'', ''application/json'')] w1 of
                  (Inl e, w2) \<Rightarrow> (Inl e, w2)
                | (Inr response, w2) \<Rightarrow>
                    if status_code response \<noteq> 200 then (Inl (query_failed response), w2)
                    else
                      (case resp_json response of
                         NotJson \<Rightarrow> (Inl JSONDecodeError, w2)
                       | NotObject \<Rightarrow> (Inl AttributeError, w2)
                       | Object data \<Rightarrow>
                           (case json_nextRecordsUrl data of
                              None \<Rightarrow> (Inr (page_records data), w2)
                            | Some cursor \<Rightarrow>
                                (case get_rest_query_results fromstring query (Some cursor) w2 of
                                   (Inl e, w3) \<Rightarrow> (Inl e, w3)
                                 | (Inr next_records, w3) \<Rightarrow>
                                     (Inr (page_records data @ next_records), w3)))))))"
  by pat_completeness auto
termination
proof (relation "measure (\<lambda>(f, q, n, w). length (pending w))")
  show "wf (measure (\<lambda>(f, q, n, w). length (pending w)))"
    by simp
next
  fix fromstring :: "string \<Rightarrow> element option" and query :: string
    and next_url :: "string option" and w :: world and base x2 session_id
    and w1 :: world and x2a response and w2 :: world and data cursor
  assume fs: "(x2, w1) = fetch_session_id fromstring w"
    and rg: "(x2a, w2) = requests_get (query_url base query next_url)
               [(''Authorization'', bearer session_id),
                (''Content-Type'', ''application/json'')] w1"
    and r: "x2a = Inr response"
  have post: "length (pending (snd (requests_post url d h v))) \<le> length (pending v)"
    for url d h v
    by (simp add: requests_post_def split: list.splits)
  have xtr: "pending (snd (extract_session_id f s v)) = pending v" for f s v
    by (simp add: extract_session_id_def print_def split: option.splits)
  have login: "length (pending (snd (get_session_id f u p t v))) \<le> length (pending v)"
    for f u p t v
  proof (cases "get_url v")
    case (Inl e)
    then show ?thesis by (simp add: get_session_id_def)
  next
    case (Inr url)
    obtain res v1 where p: "requests_post url (get_body u p t) get_headers v = (res, v1)"
      by (cases "requests_post url (get_body u p t) get_headers v")
    have "length (pending v1) \<le> length (pending v)"
      using post [of url "get_body u p t" get_headers v] p by simp
    then show ?thesis
      using Inr p by (cases res) (simp_all add: get_session_id_def xtr)
  qed
  have creds: "snd (get_credentials i v) = v" for i v
    by (simp add: get_credentials_def split: sum.splits)
  have "length (pending (snd (fetch_session_id fromstring w))) \<le> length (pending w)"
  proof -
    obtain c v1 where cr: "get_credentials ''salesforce'' w = (c, v1)"
      by (cases "get_credentials ''salesforce'' w")
    have "v1 = w"
      using creds [of "''salesforce''" w] cr by simp
    then show ?thesis
      using cr login [of fromstring _ _ _ w]
      by (simp add: fetch_session_id_def split: sum.splits)
  qed
  then have "length (pending w1) \<le> length (pending w)"
    using fs [symmetric] by simp
  moreover have "length (pending w2) < length (pending w1)"
    using rg [symmetric] r by (auto simp: requests_get_def split: list.splits)
  ultimately show "((fromstring, query, Some cursor, w2), (fromstring, query, next_url, w))
                    \<in> measure (\<lambda>(f, q, n, w). length (pending w))"
    by simp
qed

declare get_rest_query_results.simps [simp del]

text \<open>
  \<open>",".join(names)\<close> needs strings: the names that field discovery returns are JSON
  values, and \<open>as_strings\<close> is \<open>None\<close> when one of them is not a string.
\<close>

fun as_strings :: "json list \<Rightarrow> string list option" where
  "as_strings [] = Some []"
| "as_strings (JStr s # vs) = (case as_strings vs of None \<Rightarrow> None | Some ss \<Rightarrow> Some (s # ss))"
| "as_strings (v # vs) = None"

definition describe_failed :: "response \<Rightarrow> error" where
  "describe_failed response =
     Exception (''Field name query failed with a status of ''
                @ str_int (status_code response) @ '': '' @ resp_text response)"

definition get_field_names ::
  "(string \<Rightarrow> element option) \<Rightarrow> string \<Rightarrow> world \<Rightarrow> (error + json list) \<times> world" where
  "get_field_names fromstring object_name w =
     (case os_environ ''SALESFORCE_URL'' w of
        Inl e \<Rightarrow> (Inl e, w)
      | Inr base \<Rightarrow>
          (case fetch_session_id fromstring w of
             (Inl e, w1) \<Rightarrow> (Inl e, w1)
           | (Inr session_id, w1) \<Rightarrow>
               (case requests_get
                       (base @ ''/services/data/v60.0/sobjects/'' @ object_name @ ''/describe/'')
                       [(''Authorization'', bearer session_id)] w1 of
                  (Inl e, w2) \<Rightarrow> (Inl e, w2)
                | (Inr response, w2) \<Rightarrow>
                    if status_code response \<noteq> 200 then (Inl (describe_failed response), w2)
                    else
                      (case resp_json response of
                         NotJson \<Rightarrow> (Inl JSONDecodeError, w2)
                       | NotObject \<Rightarrow> (Inl TypeError, w2)
                       | Object data \<Rightarrow>
                           (case json_fields data of
                              None \<Rightarrow> (Inl (KeyError ''fields''), w2)
                            | Some fs \<Rightarrow> (get_nested_values ''name'' fs, w2))))))"

text \<open>The dict comprehension of \<open>get_records_list\<close>: a copy without the key \<open>attributes\<close>.\<close>

definition strip_attributes :: "dict \<Rightarrow> dict" where
  "strip_attributes d = filter (\<lambda>(k, v). k \<noteq> ''attributes'') d"

definition run_query ::
  "(string \<Rightarrow> element option) \<Rightarrow> string \<Rightarrow> string list option \<Rightarrow> int option \<Rightarrow> world
     \<Rightarrow> (error + dict list) \<times> world" where
  "run_query fromstring object_name field_names limit w =
     (case get_query object_name field_names limit of
        Inl e \<Rightarrow> (Inl e, w)
      | Inr query \<Rightarrow>
          (case get_rest_query_results fromstring query None w of
             (Inl e, w1) \<Rightarrow> (Inl e, w1)
           | (Inr raw_results, w1) \<Rightarrow> (Inr (map strip_attributes raw_results), w1)))"

definition get_records_list ::
  "(string \<Rightarrow> element option) \<Rightarrow> string \<Rightarrow> string list option \<Rightarrow> int option \<Rightarrow> world
     \<Rightarrow> (error + dict list) \<times> world" where
  "get_records_list fromstring object_name field_names limit w =
     (if \<not> truthy_list field_names \<and> \<not> truthy_int limit
      then
        (case get_field_names fromstring object_name w of
           (Inl e, w1) \<Rightarrow> (Inl e, w1)
         | (Inr names, w1) \<Rightarrow>
             (case as_strings names of
                None \<Rightarrow> (Inl TypeError, w1)
              | Some ss \<Rightarrow> run_query fromstring object_name (Some ss) limit w1))
      else run_query fromstring object_name field_names limit w)"



section \<open>Vocabulary of the properties\<close>

text \<open>
  The environment variables the client reads, the two requests it sends for a page, and
  what a login response yields: whether it is accepted, the session id that
  \<open>extract_session_id\<close> finds in it, and what is printed.
\<close>

definition configured :: "world \<Rightarrow> string \<Rightarrow> string \<Rightarrow> string \<Rightarrow> string \<Rightarrow> bool" where
  "configured w base username password security_token =
     (environ w ''SALESFORCE_URL'' = Some base \<and>
      environ w ''SALESFORCE_USERNAME'' = Some username \<and>
      environ w ''SALESFORCE_PASSWORD'' = Some password \<and>
      environ w ''SALESFORCE_SECURITY_TOKEN'' = Some security_token)"

definition login_request :: "string \<Rightarrow> string \<Rightarrow> string \<Rightarrow> string \<Rightarrow> request" where
  "login_request base username password security_token =
     Post (base @ ''/services/Soap/u/60.0'') (get_body username password security_token) get_headers"

definition data_request :: "string \<Rightarrow> string \<Rightarrow> string option \<Rightarrow> string option \<Rightarrow> request" where
  "data_request base query next_url session_id =
     Get (query_url base query next_url)
       [(''Authorization'', bearer session_id), (''Content-Type'', ''application/json'')]"

definition login_ok :: "(string \<Rightarrow> element option) \<Rightarrow> response \<Rightarrow> bool" where
  "login_ok fromstring l = (status_code l = 200 \<and> fromstring (resp_text l) \<noteq> None)"

definition session_of :: "(string \<Rightarrow> element option) \<Rightarrow> response \<Rightarrow> string option" where
  "session_of fromstring l =
     (case fromstring (resp_text l) of
        None \<Rightarrow> None
      | Some root \<Rightarrow> (case find_session_id_elem root of None \<Rightarrow> None | Some e \<Rightarrow> elem_text e))"

definition warnings_of :: "(string \<Rightarrow> element option) \<Rightarrow> response \<Rightarrow> string list" where
  "warnings_of fromstring l =
     (case fromstring (resp_text l) of
        None \<Rightarrow> []
      | Some root \<Rightarrow>
          (case find_session_id_elem root of
             None \<Rightarrow> [''sessionId not found in the response.'']
           | Some e \<Rightarrow> []))"

definition auth_failed :: "response \<Rightarrow> error" where
  "auth_failed response =
     Exception (''Authentication failed with status code ''
                @ str_int (status_code response) @ '': '' @ resp_text response)"

definition records_of :: "response \<Rightarrow> dict list" where
  "records_of r = (case resp_json r of Object data \<Rightarrow> page_records data | _ \<Rightarrow> [])"

definition cursor_of :: "response \<Rightarrow> string option" where
  "cursor_of r = (case resp_json r of Object data \<Rightarrow> json_nextRecordsUrl data | _ \<Rightarrow> None)"

definition page_ok :: "(string \<Rightarrow> element option) \<Rightarrow> response \<times> response \<Rightarrow> bool" where
  "page_ok fromstring x =
     (login_ok fromstring (fst x) \<and> status_code (snd x) = 200 \<and>
      (case resp_json (snd x) of Object data \<Rightarrow> True | _ \<Rightarrow> False))"

fun script :: "(response \<times> response) list \<Rightarrow> response list" where
  "script [] = []"
| "script (x # xs) = fst x # snd x # script xs"

fun requests_for ::
  "(string \<Rightarrow> element option) \<Rightarrow> string \<Rightarrow> string \<Rightarrow> string \<Rightarrow> string \<Rightarrow> string
     \<Rightarrow> string option \<Rightarrow> (response \<times> response) list \<Rightarrow> request list" where
  "requests_for f base u p t query next_url [] = []"
| "requests_for f base u p t query next_url (x # xs) =
     login_request base u p t # data_request base query next_url (session_of f (fst x))
       # requests_for f base u p t query (cursor_of (snd x)) xs"

fun continuing :: "(string \<Rightarrow> element option) \<Rightarrow> (response \<times> response) list \<Rightarrow> bool" where
  "continuing f [] = True"
| "continuing f (x # xs) = (page_ok f x \<and> cursor_of (snd x) \<noteq> None \<and> continuing f xs)"

fun paginated :: "(string \<Rightarrow> element option) \<Rightarrow> (response \<times> response) list \<Rightarrow> bool" where
  "paginated f [] = False"
| "paginated f [x] = (page_ok f x \<and> cursor_of (snd x) = None)"
| "paginated f (x # y # ys) = (page_ok f x \<and> cursor_of (snd x) \<noteq> None \<and> paginated f (y # ys))"

definition after ::
  "world \<Rightarrow> response list \<Rightarrow> request list \<Rightarrow> string list \<Rightarrow> world" where
  "after w rest reqs lines =
     w\<lparr>pending := rest, sent := sent w @ reqs, stdout := stdout w @ lines\<rparr>"

text \<open>
  Standard XML unescaping, as a parser reads character data from left to right: each of
  the five predefined entity references stands for its character. \<open>entity\<close> is the
  reference that stands for a character.
\<close>

function unescape :: "string \<Rightarrow> string" where
  "unescape [] = []"
| "unescape (c # cs) =
     (if c = CHR ''&'' \<and> take 4 cs = ''amp;'' then CHR ''&'' # unescape (drop 4 cs)
      else if c = CHR ''&'' \<and> take 3 cs = ''lt;'' then CHR ''<'' # unescape (drop 3 cs)
      else if c = CHR ''&'' \<and> take 3 cs = ''gt;'' then CHR ''>'' # unescape (drop 3 cs)
      else if c = CHR ''&'' \<and> take 5 cs = ''apos;'' then CHR 0x27 # unescape (drop 5 cs)
      else if c = CHR ''&'' \<and> take 5 cs = ''quot;'' then CHR 0x22 # unescape (drop 5 cs)
      else c # unescape cs)"
  by pat_completeness auto
termination
  by (relation "measure length") auto

definition entity :: "char \<Rightarrow> string" where
  "entity c =
     (if c = CHR ''&'' then ''&amp;''
      else if c = CHR ''>'' then ''&gt;''
      else if c = CHR ''<'' then ''&lt;''
      else if c = CHR 0x27 then ''&apos;''
      else if c = CHR 0x22 then ''&quot;''
      else [c])"

text \<open>
  The failure of the query builder, the cursor in force after a run of pages, and what
  is read off a request: whether it is a login, its URL and its \<open>Authorization\<close>
  header.
\<close>

definition invalid_query :: error where
  "invalid_query = Exception ''If limit is not provided, you MUST provide a list of fields''"

fun cursor_after :: "string option \<Rightarrow> (response \<times> response) list \<Rightarrow> string option" where
  "cursor_after next_url [] = next_url"
| "cursor_after next_url (x # xs) = cursor_after (cursor_of (snd x)) xs"

fun is_login :: "request \<Rightarrow> bool" where
  "is_login (Post url body headers) = True"
| "is_login (Get url headers) = False"

fun authorization :: "request \<Rightarrow> string option" where
  "authorization (Post url body headers) = map_of headers ''Authorization''"
| "authorization (Get url headers) = map_of headers ''Authorization''"

fun request_url :: "request \<Rightarrow> string" where
  "request_url (Post url body headers) = url"
| "request_url (Get url headers) = url"

text \<open>
  Two readings of "the response has a session id node". The first is the path
  \<open>Envelope/Body/loginResponse/result/sessionId\<close> from the document root, as the
  specification words it. The second is what the search path \<open>.//soapenv:Body/...\<close>
  covers: a \<open>Body\<close> anywhere strictly below the root, whatever the root is.
\<close>

definition has_envelope_session_id :: "element \<Rightarrow> bool" where
  "has_envelope_session_id root =
     (elem_tag root = soapenv ''Envelope'' \<and>
      list_ex (\<lambda>b. elem_tag b = soapenv ''Body'' \<and>
        list_ex (\<lambda>l. elem_tag l = ns ''loginResponse'' \<and>
          list_ex (\<lambda>r. elem_tag r = ns ''result'' \<and>
            list_ex (\<lambda>s. elem_tag s = ns ''sessionId'') (elem_children r))
            (elem_children l))
          (elem_children b))
        (elem_children root))"

definition has_session_id_below :: "element \<Rightarrow> bool" where
  "has_session_id_below root =
     list_ex (\<lambda>b. elem_tag b = soapenv ''Body'' \<and>
        list_ex (\<lambda>l. elem_tag l = ns ''loginResponse'' \<and>
          list_ex (\<lambda>r. elem_tag r = ns ''result'' \<and>
            list_ex (\<lambda>s. elem_tag s = ns ''sessionId'') (elem_children r))
            (elem_children l))
          (elem_children b))
        (concat (map iter (elem_children root)))"

text \<open>
  The request of field discovery, and a successful discovery: the login is accepted, the
  describe response has status 200 and a \<open>fields\<close> list whose entries all have a
  \<open>name\<close>, and the names are the strings \<open>ss\<close>.
\<close>

definition describe_request :: "string \<Rightarrow> string \<Rightarrow> string option \<Rightarrow> request" where
  "describe_request base object_name session_id =
     Get (base @ ''/services/data/v60.0/sobjects/'' @ object_name @ ''/describe/'')
       [(''Authorization'', bearer session_id)]"

definition discovery_ok ::
  "(string \<Rightarrow> element option) \<Rightarrow> response \<Rightarrow> response \<Rightarrow> string list \<Rightarrow> bool" where
  "discovery_ok fromstring dl dr ss =
     (login_ok fromstring dl \<and> status_code dr = 200 \<and>
      (case resp_json dr of
         Object data \<Rightarrow>
           (case json_fields data of
              Some entries \<Rightarrow>
                (case get_nested_values ''name'' entries of
                   Inr names \<Rightarrow> as_strings names = Some ss
                 | Inl e \<Rightarrow> False)
            | None \<Rightarrow> False)
       | _ \<Rightarrow> False))"

section \<open>Example responses\<close>

text \<open>
  A configured environment, login responses with their parsed trees, the parser
  restricted to these texts, and two pages of records: page one holds the records A and
  B and the cursor \<open>/cursor2\<close>, page two holds the record C and no cursor.
\<close>

definition example_base :: string where
  "example_base = ''https://example.my.salesforce.com''"

definition example_environ :: "string \<rightharpoonup> string" where
  "example_environ =
     map_of [(''SALESFORCE_URL'', example_base),
             (''SALESFORCE_USERNAME'', ''ada@example.com''),
             (''SALESFORCE_PASSWORD'', ''p&ss''),
             (''SALESFORCE_SECURITY_TOKEN'', ''tok<1>'')]"

definition login_text :: "string \<Rightarrow> string" where
  \<open>login_text sid =
     ''<?xml version="1.0" encoding="UTF-8"?>'' @
     ''<soapenv:Envelope xmlns:soapenv="http://schemas.xmlsoap.org/soap/envelope/"'' @
     '' xmlns="urn:partner.soap.sforce.com"><soapenv:Body><loginResponse><result>'' @
     ''<sessionId>'' @ sid @ ''</sessionId>'' @
     ''</result></loginResponse></soapenv:Body></soapenv:Envelope>''\<close>

definition login_tree :: "string \<Rightarrow> element" where
  "login_tree sid =
     Element (soapenv ''Envelope'') None
       [Element (soapenv ''Body'') None
          [Element (ns ''loginResponse'') None
             [Element (ns ''result'') None
                [Element (ns ''sessionId'') (Some sid) []]]]]"

definition wrapped_text :: string where
  \<open>wrapped_text =
     ''<wrapper xmlns:soapenv="http://schemas.xmlsoap.org/soap/envelope/"'' @
     '' xmlns="urn:partner.soap.sforce.com"><soapenv:Body><loginResponse><result>'' @
     ''<sessionId>SID9</sessionId>'' @
     ''</result></loginResponse></soapenv:Body></wrapper>''\<close>

definition wrapped_tree :: element where
  "wrapped_tree =
     Element (ns ''wrapper'') None
       [Element (soapenv ''Body'') None
          [Element (ns ''loginResponse'') None
             [Element (ns ''result'') None
                [Element (ns ''sessionId'') (Some ''SID9'') []]]]]"

definition no_session_text :: string where
  \<open>no_session_text =
     ''<soapenv:Envelope xmlns:soapenv="http://schemas.xmlsoap.org/soap/envelope/"'' @
     '' xmlns="urn:partner.soap.sforce.com"><soapenv:Body><loginResponse><result>'' @
     ''<userId>005A</userId>'' @
     ''</result></loginResponse></soapenv:Body></soapenv:Envelope>''\<close>

definition no_session_tree :: element where
  "no_session_tree =
     Element (soapenv ''Envelope'') None
       [Element (soapenv ''Body'') None
          [Element (ns ''loginResponse'') None
             [Element (ns ''result'') None
                [Element (ns ''userId'') (Some ''005A'') []]]]]"

definition example_fromstring :: "string \<Rightarrow> element option" where
  "example_fromstring s =
     (if s = login_text ''SID1'' then Some (login_tree ''SID1'')
      else if s = login_text ''SID2'' then Some (login_tree ''SID2'')
      else if s = wrapped_text then Some wrapped_tree
      else if s = no_session_text then Some no_session_tree
      else None)"

definition ok_response :: "string \<Rightarrow> response" where
  "ok_response body = \<lparr>status_code = 200, resp_text = body, resp_json = NotJson\<rparr>"

definition record_A :: dict where
  "record_A = [(''attributes'', JDict [(''type'', JStr ''Account'')]), (''Id'', JStr ''001A'')]"

definition record_B :: dict where
  "record_B = [(''attributes'', JDict [(''type'', JStr ''Account'')]), (''Id'', JStr ''001B'')]"

definition record_C :: dict where
  "record_C = [(''attributes'', JDict [(''type'', JStr ''Account'')]), (''Id'', JStr ''001C'')]"

definition page1 :: response where
  \<open>page1 =
     \<lparr>status_code = 200,
      resp_text =
        ''{"records":[{"attributes":{"type":"Account"},"Id":"001A"},'' @
        ''{"attributes":{"type":"Account"},"Id":"001B"}],"nextRecordsUrl":"/cursor2"}'',
      resp_json =
        Object \<lparr>json_records = Some [record_A, record_B],
              json_nextRecordsUrl = Some ''/cursor2'',
              json_fields = None\<rparr>\<rparr>\<close>

definition page2 :: response where
  \<open>page2 =
     \<lparr>status_code = 200,
      resp_text = ''{"records":[{"attributes":{"type":"Account"},"Id":"001C"}]}'',
      resp_json =
        Object \<lparr>json_records = Some [record_C],
              json_nextRecordsUrl = None,
              json_fields = None\<rparr>\<rparr>\<close>

definition unauthorized :: response where
  \<open>unauthorized =
     \<lparr>status_code = 401,
      resp_text = ''[{"message":"Session expired or invalid","errorCode":"INVALID_SESSION_ID"}]'',
      resp_json = NotObject\<rparr>\<close>

definition unavailable :: response where
  "unavailable = \<lparr>status_code = 503, resp_text = ''Service Unavailable'', resp_json = NotJson\<rparr>"

definition describe_ok :: response where
  \<open>describe_ok =
     \<lparr>status_code = 200,
      resp_text = ''{"fields":[{"name":"Id"},{"name":"Name"}]}'',
      resp_json =
        Object \<lparr>json_records = None,
                json_nextRecordsUrl = None,
                json_fields = Some [[(''name'', JStr ''Id'')], [(''name'', JStr ''Name'')]]\<rparr>\<rparr>\<close>

definition example_world :: "response list \<Rightarrow> world" where
  "example_world responses =
     \<lparr>environ = example_environ, pending = responses, sent = [], stdout = []\<rparr>"

definition two_pages :: "(response \<times> response) list" where
  "two_pages =
     [(ok_response (login_text ''SID1''), page1), (ok_response (login_text ''SID2''), page2)]"

definition example_query :: string where
  "example_query = ''queryAll/?q=SELECT+Id+FROM+Account''"

definition acme_world :: world where
  "acme_world =
     \<lparr>environ = map_of [(''ACME_USERNAME'', ''grace''), (''ACME_PASSWORD'', ''hunter2''),
                         (''ACME_SECURITY_TOKEN'', ''T0K'')],
      pending = [], sent = [], stdout = []\<rparr>"

definition acme_world_without_token :: world where
  "acme_world_without_token =
     \<lparr>environ = map_of [(''ACME_USERNAME'', ''grace''), (''ACME_PASSWORD'', ''hunter2'')],
      pending = [], sent = [], stdout = []\<rparr>"

section \<open>Login and pagination steps\<close>

lemma configured_update [simp]:
  "configured (w\<lparr>pending := a, sent := b, stdout := c\<rparr>) base u p t = configured w base u p t"
  "configured (w\<lparr>pending := a, sent := b\<rparr>) base u p t = configured w base u p t"
  by (simp_all add: configured_def)

lemma upper_salesforce: "upper ''salesforce'' = ''SALESFORCE''"
  by (simp add: upper_def upper_char_def)

lemma get_credentials_configured:
  assumes "configured w base u p t"
  shows "get_credentials ''salesforce'' w =
           (Inr [(''salesforce_password'', p), (''salesforce_username'', u),
                 (''salesforce_security_token'', t)], w)"
  using assms by (simp add: get_credentials_def os_environ_def configured_def upper_salesforce)

lemma get_session_id_reply:
  assumes "environ w ''SALESFORCE_URL'' = Some base" and "pending w = l # rest"
  shows "get_session_id f u p t w =
           (if status_code l \<noteq> 200
            then (Inl (auth_failed l), w\<lparr>pending := rest, sent := sent w @ [login_request base u p t]\<rparr>)
            else extract_session_id f (resp_text l)
                   (w\<lparr>pending := rest, sent := sent w @ [login_request base u p t]\<rparr>))"
  using assms
  by (simp add: get_session_id_def get_url_def os_environ_def requests_post_def
      auth_failed_def login_request_def)

lemma fetch_session_id_reply:
  assumes "configured w base u p t" and "pending w = l # rest"
  shows "fetch_session_id f w =
           (if status_code l \<noteq> 200
            then (Inl (auth_failed l), w\<lparr>pending := rest, sent := sent w @ [login_request base u p t]\<rparr>)
            else extract_session_id f (resp_text l)
                   (w\<lparr>pending := rest, sent := sent w @ [login_request base u p t]\<rparr>))"
proof -
  have url: "environ w ''SALESFORCE_URL'' = Some base"
    using assms(1) by (simp add: configured_def)
  show ?thesis
    by (simp add: fetch_session_id_def get_credentials_configured [OF assms(1)] subscript_def
        get_session_id_reply [OF url assms(2)])
qed

lemma extract_session_id_ok:
  assumes "f s \<noteq> None"
  shows "extract_session_id f s w =
           (Inr (case f s of None \<Rightarrow> None | Some root \<Rightarrow> (case find_session_id_elem root of None \<Rightarrow> None | Some e \<Rightarrow> elem_text e)),
            w\<lparr>stdout := stdout w @ (case f s of None \<Rightarrow> [] | Some root \<Rightarrow> (case find_session_id_elem root of None \<Rightarrow> [''sessionId not found in the response.''] | Some e \<Rightarrow> []))\<rparr>)"
  using assms by (auto simp: extract_session_id_def print_def split: option.splits)

lemma fetch_session_id_ok:
  assumes "configured w base u p t" and "pending w = l # rest" and "login_ok f l"
  shows "fetch_session_id f w =
           (Inr (session_of f l),
            w\<lparr>pending := rest, sent := sent w @ [login_request base u p t],
              stdout := stdout w @ warnings_of f l\<rparr>)"
  using assms(3)
  by (simp add: fetch_session_id_reply [OF assms(1,2)] login_ok_def extract_session_id_ok
      session_of_def warnings_of_def)

lemma page_step:
  assumes cfg: "configured w base u p t"
    and pend: "pending w = l # r # rest"
    and ok: "page_ok f (l, r)"
  shows "get_rest_query_results f query next_url w =
           (case cursor_of r of
              None \<Rightarrow>
                (Inr (records_of r),
                 after w rest [login_request base u p t,
                               data_request base query next_url (session_of f l)]
                   (warnings_of f l))
            | Some cursor \<Rightarrow>
                (case get_rest_query_results f query (Some cursor)
                        (after w rest [login_request base u p t,
                                       data_request base query next_url (session_of f l)]
                          (warnings_of f l)) of
                   (Inl e, w3) \<Rightarrow> (Inl e, w3)
                 | (Inr next_records, w3) \<Rightarrow> (Inr (records_of r @ next_records), w3)))"
proof -
  have url: "os_environ ''SALESFORCE_URL'' w = Inr base"
    using cfg by (simp add: configured_def os_environ_def)
  have lg: "login_ok f l" and st: "status_code r = 200"
    using ok by (simp_all add: page_ok_def)
  obtain data where data: "resp_json r = Object data"
    using ok by (auto simp: page_ok_def split: json_reply.splits)
  have recs: "records_of r = page_records data" and cur: "cursor_of r = json_nextRecordsUrl data"
    using data by (simp_all add: records_of_def cursor_of_def)
  let ?w1 = "w\<lparr>pending := r # rest, sent := sent w @ [login_request base u p t],
               stdout := stdout w @ warnings_of f l\<rparr>"
  have fetch: "fetch_session_id f w = (Inr (session_of f l), ?w1)"
    by (rule fetch_session_id_ok [OF cfg pend lg])
  have get: "requests_get (query_url base query next_url)
               [(''Authorization'', bearer (session_of f l)),
                (''Content-Type'', ''application/json'')] ?w1 =
             (Inr r, after w rest [login_request base u p t,
                                   data_request base query next_url (session_of f l)]
                       (warnings_of f l))"
    by (simp add: requests_get_def after_def data_request_def)
  show ?thesis
    unfolding recs cur
    by (subst get_rest_query_results.simps) (simp add: url fetch get st data)
qed

lemma query_fail_step:
  assumes cfg: "configured w base u p t"
    and pend: "pending w = l # r # rest"
    and lg: "login_ok f l"
    and st: "status_code r \<noteq> 200"
  shows "get_rest_query_results f query next_url w =
           (Inl (query_failed r),
            after w rest [login_request base u p t,
                          data_request base query next_url (session_of f l)]
              (warnings_of f l))"
proof -
  have url: "os_environ ''SALESFORCE_URL'' w = Inr base"
    using cfg by (simp add: configured_def os_environ_def)
  let ?w1 = "w\<lparr>pending := r # rest, sent := sent w @ [login_request base u p t],
               stdout := stdout w @ warnings_of f l\<rparr>"
  have fetch: "fetch_session_id f w = (Inr (session_of f l), ?w1)"
    by (rule fetch_session_id_ok [OF cfg pend lg])
  have get: "requests_get (query_url base query next_url)
               [(''Authorization'', bearer (session_of f l)),
                (''Content-Type'', ''application/json'')] ?w1 =
             (Inr r, after w rest [login_request base u p t,
                                   data_request base query next_url (session_of f l)]
                       (warnings_of f l))"
    by (simp add: requests_get_def after_def data_request_def)
  show ?thesis
    by (subst get_rest_query_results.simps) (simp add: url fetch get st)
qed

lemma login_fail_step:
  assumes cfg: "configured w base u p t"
    and pend: "pending w = l # rest"
    and st: "status_code l \<noteq> 200"
  shows "get_rest_query_results f query next_url w =
           (Inl (auth_failed l), after w rest [login_request base u p t] [])"
proof -
  have url: "os_environ ''SALESFORCE_URL'' w = Inr base"
    using cfg by (simp add: configured_def os_environ_def)
  show ?thesis
    by (subst get_rest_query_results.simps)
      (simp add: url fetch_session_id_reply [OF cfg pend] st after_def)
qed

lemma configured_after [simp]:
  "configured (after w rest reqs lines) base u p t = configured w base u p t"
  by (simp add: after_def)

lemma after_after [simp]:
  "after (after w rest reqs lines) rest' reqs' lines' = after w rest' (reqs @ reqs') (lines @ lines')"
  by (simp add: after_def)

lemma pending_after [simp]: "pending (after w rest reqs lines) = rest"
  by (simp add: after_def)

lemma paginated_run:
  assumes "configured w base u p t" and "paginated f xs" and "pending w = script xs @ rest"
  shows "get_rest_query_results f query next_url w =
           (Inr (concat (map (\<lambda>x. records_of (snd x)) xs)),
            after w rest (requests_for f base u p t query next_url xs)
              (concat (map (\<lambda>x. warnings_of f (fst x)) xs)))"
  using assms
proof (induction xs arbitrary: w next_url rule: paginated.induct)
  case (1 f)
  then show ?case by simp
next
  case (2 f x)
  obtain l r where x: "x = (l, r)" by (cases x)
  from 2 x have ok: "page_ok f (l, r)" and cur: "cursor_of r = None"
    and pend: "pending w = l # r # rest"
    by simp_all
  show ?case
    by (simp add: page_step [OF "2.prems"(1) pend ok] cur x)
next
  case (3 f x y ys)
  obtain l r where x: "x = (l, r)" by (cases x)
  from 3 x have ok: "page_ok f (l, r)" and pag: "paginated f (y # ys)"
    and pend: "pending w = l # r # script (y # ys) @ rest"
    by simp_all
  from 3 x obtain cursor where cur: "cursor_of r = Some cursor"
    by auto
  let ?w2 = "after w (script (y # ys) @ rest)
               [login_request base u p t, data_request base query next_url (session_of f l)]
               (warnings_of f l)"
  have cfg2: "configured ?w2 base u p t"
    using "3.prems"(1) by simp
  have pend2: "pending ?w2 = script (y # ys) @ rest"
    by simp
  have ih: "get_rest_query_results f query (Some cursor) ?w2 =
           (Inr (concat (map (\<lambda>x. records_of (snd x)) (y # ys))),
            after ?w2 rest (requests_for f base u p t query (Some cursor) (y # ys))
              (concat (map (\<lambda>x. warnings_of f (fst x)) (y # ys))))"
    by (rule "3.IH" [OF cfg2 pag pend2])
  show ?case
    by (simp add: page_step [OF "3.prems"(1) pend ok] cur ih x del: script.simps)
qed

lemma sent_after [simp]: "sent (after w rest reqs lines) = sent w @ reqs"
  by (simp add: after_def)

lemma continuing_query_fail:
  assumes "configured w base u p t" and "continuing f xs"
    and "pending w = script xs @ l # r # rest" and "login_ok f l" and "status_code r \<noteq> 200"
  shows "get_rest_query_results f query next_url w =
           (Inl (query_failed r),
            after w rest
              (requests_for f base u p t query next_url xs @
               [login_request base u p t,
                data_request base query (cursor_after next_url xs) (session_of f l)])
              (concat (map (\<lambda>x. warnings_of f (fst x)) xs) @ warnings_of f l))"
  using assms
proof (induction xs arbitrary: w next_url)
  case Nil
  then show ?case
    by (simp add: query_fail_step [where rest = rest])
next
  case (Cons x xs)
  obtain a b where x: "x = (a, b)" by (cases x)
  from Cons.prems x have ok: "page_ok f (a, b)" and cont: "continuing f xs"
    and pend: "pending w = a # b # script xs @ l # r # rest"
    by simp_all
  from Cons.prems x obtain cursor where cur: "cursor_of b = Some cursor"
    by auto
  let ?w2 = "after w (script xs @ l # r # rest)
               [login_request base u p t, data_request base query next_url (session_of f a)]
               (warnings_of f a)"
  have cfg2: "configured ?w2 base u p t"
    using Cons.prems(1) by simp
  have pend2: "pending ?w2 = script xs @ l # r # rest"
    by simp
  have ih: "get_rest_query_results f query (Some cursor) ?w2 =
           (Inl (query_failed r),
            after ?w2 rest
              (requests_for f base u p t query (Some cursor) xs @
               [login_request base u p t,
                data_request base query (cursor_after (Some cursor) xs) (session_of f l)])
              (concat (map (\<lambda>x. warnings_of f (fst x)) xs) @ warnings_of f l))"
    by (rule Cons.IH [OF cfg2 cont pend2 Cons.prems(4,5)])
  show ?case
    by (simp add: page_step [OF Cons.prems(1) pend ok] cur ih x)
qed

lemma continuing_login_fail:
  assumes "configured w base u p t" and "continuing f xs"
    and "pending w = script xs @ l # rest" and "status_code l \<noteq> 200"
  shows "get_rest_query_results f query next_url w =
           (Inl (auth_failed l),
            after w rest
              (requests_for f base u p t query next_url xs @ [login_request base u p t])
              (concat (map (\<lambda>x. warnings_of f (fst x)) xs)))"
  using assms
proof (induction xs arbitrary: w next_url)
  case Nil
  then show ?case
    by (simp add: login_fail_step [where rest = rest])
next
  case (Cons x xs)
  obtain a b where x: "x = (a, b)" by (cases x)
  from Cons.prems x have ok: "page_ok f (a, b)" and cont: "continuing f xs"
    and pend: "pending w = a # b # script xs @ l # rest"
    by simp_all
  from Cons.prems x obtain cursor where cur: "cursor_of b = Some cursor"
    by auto
  let ?w2 = "after w (script xs @ l # rest)
               [login_request base u p t, data_request base query next_url (session_of f a)]
               (warnings_of f a)"
  have cfg2: "configured ?w2 base u p t"
    using Cons.prems(1) by simp
  have pend2: "pending ?w2 = script xs @ l # rest"
    by simp
  have ih: "get_rest_query_results f query (Some cursor) ?w2 =
           (Inl (auth_failed l),
            after ?w2 rest
              (requests_for f base u p t query (Some cursor) xs @ [login_request base u p t])
              (concat (map (\<lambda>x. warnings_of f (fst x)) xs)))"
    by (rule Cons.IH [OF cfg2 cont pend2 Cons.prems(4)])
  show ?case
    by (simp add: page_step [OF Cons.prems(1) pend ok] cur ih x)
qed

lemma describe_fail_step:
  assumes cfg: "configured w base u p t"
    and pend: "pending w = l # r # rest"
    and lg: "login_ok f l"
    and st: "status_code r \<noteq> 200"
  shows "get_field_names f object_name w =
           (Inl (describe_failed r),
            after w rest
              [login_request base u p t,
               Get (base @ ''/services/data/v60.0/sobjects/'' @ object_name @ ''/describe/'')
                 [(''Authorization'', bearer (session_of f l))]]
              (warnings_of f l))"
proof -
  have url: "os_environ ''SALESFORCE_URL'' w = Inr base"
    using cfg by (simp add: configured_def os_environ_def)
  let ?w1 = "w\<lparr>pending := r # rest, sent := sent w @ [login_request base u p t],
               stdout := stdout w @ warnings_of f l\<rparr>"
  have fetch: "fetch_session_id f w = (Inr (session_of f l), ?w1)"
    by (rule fetch_session_id_ok [OF cfg pend lg])
  have get: "requests_get url hs ?w1 =
             (Inr r, after w rest [login_request base u p t, Get url hs] (warnings_of f l))"
    for url hs
    by (simp add: requests_get_def after_def)
  show ?thesis
    by (simp add: get_field_names_def url fetch get st)
qed

lemma run_query_error:
  assumes "get_query object_name field_names limit = Inr query"
    and "get_rest_query_results f query None w = (Inl e, w')"
  shows "run_query f object_name field_names limit w = (Inl e, w')"
  using assms by (simp add: run_query_def)

lemma run_query_result:
  assumes "get_query object_name field_names limit = Inr query"
    and "get_rest_query_results f query None w = (Inr rs, w')"
  shows "run_query f object_name field_names limit w = (Inr (map strip_attributes rs), w')"
  using assms by (simp add: run_query_def)

lemma get_query_Inr_truthy:
  "get_query object_name field_names limit = Inr query \<Longrightarrow>
     \<not> (\<not> truthy_list field_names \<and> \<not> truthy_int limit)"
  by (auto simp: get_query_def split: if_splits)

lemma get_records_list_given:
  assumes "get_query object_name field_names limit = Inr query"
  shows "get_records_list f object_name field_names limit w =
           run_query f object_name field_names limit w"
  using get_query_Inr_truthy [OF assms] by (auto simp: get_records_list_def)

lemma requests_for_logins:
  "length (filter is_login (requests_for f base u p t query next_url xs)) = length xs"
  by (induction xs arbitrary: next_url) (simp_all add: login_request_def data_request_def)

lemma requests_for_authorizations:
  "map authorization (filter (\<lambda>r. \<not> is_login r) (requests_for f base u p t query next_url xs)) =
     map (\<lambda>x. Some (bearer (session_of f (fst x)))) xs"
  by (induction xs arbitrary: next_url) (simp_all add: login_request_def data_request_def)

lemma describe_login_fail_step:
  assumes cfg: "configured w base u p t"
    and pend: "pending w = l # rest"
    and st: "status_code l \<noteq> 200"
  shows "get_field_names f object_name w =
           (Inl (auth_failed l), after w rest [login_request base u p t] [])"
proof -
  have url: "os_environ ''SALESFORCE_URL'' w = Inr base"
    using cfg by (simp add: configured_def os_environ_def)
  show ?thesis
    by (simp add: get_field_names_def url fetch_session_id_reply [OF cfg pend] st after_def)
qed

lemma describe_ok_step:
  assumes cfg: "configured w base u p t"
    and pend: "pending w = dl # dr # rest"
    and ok: "discovery_ok f dl dr ss"
  shows "\<exists>names. as_strings names = Some ss \<and>
           get_field_names f object_name w =
             (Inr names,
              after w rest
                [login_request base u p t,
                 describe_request base object_name (session_of f dl)]
                (warnings_of f dl))"
proof -
  have url: "os_environ ''SALESFORCE_URL'' w = Inr base"
    using cfg by (simp add: configured_def os_environ_def)
  have lg: "login_ok f dl" and st: "status_code dr = 200"
    using ok by (simp_all add: discovery_ok_def)
  obtain data entries names where data: "resp_json dr = Object data"
    and entries: "json_fields data = Some entries"
    and names: "get_nested_values ''name'' entries = Inr names"
    and ss: "as_strings names = Some ss"
    using ok by (auto simp: discovery_ok_def split: json_reply.splits option.splits sum.splits)
  let ?w1 = "w\<lparr>pending := dr # rest, sent := sent w @ [login_request base u p t],
               stdout := stdout w @ warnings_of f dl\<rparr>"
  have fetch: "fetch_session_id f w = (Inr (session_of f dl), ?w1)"
    by (rule fetch_session_id_ok [OF cfg pend lg])
  have get: "requests_get url hs ?w1 =
             (Inr dr, after w rest [login_request base u p t, Get url hs] (warnings_of f dl))"
    for url hs
    by (simp add: requests_get_def after_def)
  have "get_field_names f object_name w =
             (Inr names,
              after w rest
                [login_request base u p t,
                 describe_request base object_name (session_of f dl)]
                (warnings_of f dl))"
    by (simp add: get_field_names_def url fetch get st data entries names describe_request_def)
  then show ?thesis
    using ss by blast
qed

lemma get_query_falsy_limit:
  assumes "\<not> truthy_int limit" and "ss \<noteq> []"
  shows "get_query object_name (Some ss) limit =
           Inr (''queryAll/?q=SELECT+'' @ join '','' ss @ ''+FROM+'' @ object_name)"
proof -
  have "limit = None \<or> limit = Some 0"
    using assms(1) by (cases limit) simp_all
  then show ?thesis
    using assms(2) by (cases ss) (auto simp: get_query_def)
qed

lemma discovered_run:
  assumes cfg: "configured w base u p t"
    and nf: "\<not> truthy_list field_names"
    and nl: "\<not> truthy_int limit"
    and pend: "pending w = dl # dr # rest"
    and ok: "discovery_ok f dl dr ss"
    and ne: "ss \<noteq> []"
    and run: "get_rest_query_results f
                (''queryAll/?q=SELECT+'' @ join '','' ss @ ''+FROM+'' @ object_name) None
                (after w rest
                   [login_request base u p t,
                    describe_request base object_name (session_of f dl)]
                   (warnings_of f dl)) = (Inl e, w')"
  shows "get_records_list f object_name field_names limit w = (Inl e, w')"
proof -
  obtain names where ss: "as_strings names = Some ss"
    and gf: "get_field_names f object_name w =
             (Inr names,
              after w rest
                [login_request base u p t,
                 describe_request base object_name (session_of f dl)]
                (warnings_of f dl))"
    using describe_ok_step [OF cfg pend ok] by blast
  show ?thesis
    by (simp add: get_records_list_def nf nl gf ss
        run_query_error [OF get_query_falsy_limit [OF nl ne] run])
qed

section \<open>The example run\<close>

lemma example_configured:
  "configured (example_world rs) example_base ''ada@example.com'' ''p&ss'' ''tok<1>''"
  by (simp add: configured_def example_world_def example_environ_def)

lemma example_fromstring_login1:
  "example_fromstring (login_text ''SID1'') = Some (login_tree ''SID1'')"
  by (simp add: example_fromstring_def)

lemma example_fromstring_login2:
  "example_fromstring (login_text ''SID2'') = Some (login_tree ''SID2'')"
  by (simp add: example_fromstring_def login_text_def)

lemma find_login_tree:
  "find_session_id_elem (login_tree sid) = Some (Element (ns ''sessionId'') (Some sid) [])"
  by (simp add: find_session_id_elem_def login_tree_def select_child_def select_descendant_def
      soapenv_def ns_def)

lemma login1_ok: "login_ok example_fromstring (ok_response (login_text ''SID1''))"
  by (simp add: login_ok_def ok_response_def example_fromstring_login1)

lemma login2_ok: "login_ok example_fromstring (ok_response (login_text ''SID2''))"
  by (simp add: login_ok_def ok_response_def example_fromstring_login2)

lemma session_of_login1: "session_of example_fromstring (ok_response (login_text ''SID1'')) = Some ''SID1''"
  by (simp add: session_of_def ok_response_def example_fromstring_login1 find_login_tree)

lemma session_of_login2: "session_of example_fromstring (ok_response (login_text ''SID2'')) = Some ''SID2''"
  by (simp add: session_of_def ok_response_def example_fromstring_login2 find_login_tree)

lemma warnings_of_login1: "warnings_of example_fromstring (ok_response (login_text ''SID1'')) = []"
  by (simp add: warnings_of_def ok_response_def example_fromstring_login1 find_login_tree)

lemma warnings_of_login2: "warnings_of example_fromstring (ok_response (login_text ''SID2'')) = []"
  by (simp add: warnings_of_def ok_response_def example_fromstring_login2 find_login_tree)

lemma two_pages_paginated: "paginated example_fromstring two_pages"
  by (simp add: two_pages_def page_ok_def login_ok_def cursor_of_def ok_response_def
      example_fromstring_login1 example_fromstring_login2 page1_def page2_def)

lemma first_page_continuing:
  "continuing example_fromstring [(ok_response (login_text ''SID1''), page1)]"
  by (simp add: page_ok_def login1_ok cursor_of_def page1_def)

lemma two_pages_pending: "pending (example_world (script two_pages)) = script two_pages @ []"
  by (simp add: example_world_def)

lemma example_get_query:
  "get_query ''Account'' (Some [''Id'']) None = Inr example_query"
  by (simp add: get_query_def example_query_def)

lemma two_pages_run:
  "get_rest_query_results example_fromstring query None (example_world (script two_pages)) =
     (Inr [record_A, record_B, record_C],
      after (example_world (script two_pages)) []
        [login_request example_base ''ada@example.com'' ''p&ss'' ''tok<1>'',
         data_request example_base query None (Some ''SID1''),
         login_request example_base ''ada@example.com'' ''p&ss'' ''tok<1>'',
         data_request example_base query (Some ''/cursor2'') (Some ''SID2'')] [])"
proof -
  have p: "pending (example_world (script two_pages)) = script two_pages @ []"
    by (simp add: example_world_def)
  show ?thesis
    by (simp add: paginated_run [OF example_configured two_pages_paginated p])
      (simp add: two_pages_def records_of_def page_records_def page1_def page2_def cursor_of_def
        session_of_login1 session_of_login2 warnings_of_login1 warnings_of_login2)
qed

section \<open>Query builder\<close>

text \<open>
  C2 fails for the limit 0: with the fields \<open>Id\<close> and \<open>Name\<close> and the limit 0
  the builder returns the query without a \<open>LIMIT\<close> clause.
\<close>

theorem get_query_limit_zero:
  "get_query ''Account'' (Some [''Id'', ''Name'']) (Some 0) =
     Inr ''queryAll/?q=SELECT+Id,Name+FROM+Account'' \<and>
   get_query ''Account'' (Some [''Id'', ''Name'']) (Some 0) \<noteq>
     Inr ''queryAll/?q=SELECT+Id,Name+FROM+Account+LIMIT+0''"
  by (simp add: get_query_def)

text \<open>
  C2. For every object name, every non-empty field list and every limit other than 0,
  \<open>get_query\<close> returns \<open>queryAll/?q=SELECT+<comma-joined fields>+FROM+<object>+LIMIT+<limit>\<close>;
  without a field list the field clause is \<open>FIELDS(ALL)\<close>; without a limit there is
  no \<open>LIMIT\<close> clause; and \<open>get_query("Account", ["Id", "Name"], 10)\<close> is
  \<open>queryAll/?q=SELECT+Id,Name+FROM+Account+LIMIT+10\<close>.
\<close>

theorem get_query_string:
  "(field_names \<noteq> [] \<and> limit \<noteq> 0 \<longrightarrow>
      get_query object_name (Some field_names) (Some limit) =
        Inr (''queryAll/?q=SELECT+'' @ join '','' field_names @ ''+FROM+'' @ object_name
             @ ''+LIMIT+'' @ str_int limit)) \<and>
   (limit \<noteq> 0 \<longrightarrow>
      get_query object_name None (Some limit) =
        Inr (''queryAll/?q=SELECT+FIELDS(ALL)+FROM+'' @ object_name
             @ ''+LIMIT+'' @ str_int limit)) \<and>
   (field_names \<noteq> [] \<longrightarrow>
      get_query object_name (Some field_names) None =
        Inr (''queryAll/?q=SELECT+'' @ join '','' field_names @ ''+FROM+'' @ object_name)) \<and>
   get_query ''Account'' (Some [''Id'', ''Name'']) (Some 10) =
     Inr ''queryAll/?q=SELECT+Id,Name+FROM+Account+LIMIT+10''"
  by (cases field_names) (simp_all add: get_query_def str_int_def str_nat.simps)

text \<open>
  The three cases of C2 for the object \<open>Contact\<close>, three fields and the limit 250.
\<close>

theorem get_query_string_witness:
  "get_query ''Contact'' (Some [''Id'', ''Email'', ''Phone'']) (Some 250) =
     Inr ''queryAll/?q=SELECT+Id,Email,Phone+FROM+Contact+LIMIT+250'' \<and>
   get_query ''Contact'' None (Some 250) =
     Inr ''queryAll/?q=SELECT+FIELDS(ALL)+FROM+Contact+LIMIT+250'' \<and>
   get_query ''Contact'' (Some [''Id'', ''Email'', ''Phone'']) None =
     Inr ''queryAll/?q=SELECT+Id,Email,Phone+FROM+Contact''"
  using get_query_string [of "[''Id'', ''Email'', ''Phone'']" 250 "''Contact''"]
  by (simp add: str_int_def str_nat.simps)

text \<open>
  C6 fails for an empty field list: \<open>fields=[]\<close> is supplied, no limit is, and the
  builder raises.
\<close>

theorem get_query_empty_fields_raises:
  "get_query ''Account'' (Some []) None = Inl invalid_query"
  by (simp add: get_query_def invalid_query_def)

text \<open>
  C6. \<open>get_query\<close> raises its error exactly when the field list is absent or empty
  and the limit is absent or 0; in every other case it returns a query string; and
  \<open>get_query("Account", None, None)\<close> raises.
\<close>

theorem get_query_raises_iff:
  "(get_query object_name field_names limit = Inl invalid_query) =
     ((field_names = None \<or> field_names = Some []) \<and> (limit = None \<or> limit = Some 0)) \<and>
   ((\<exists>query. get_query object_name field_names limit = Inr query) =
     (\<not> ((field_names = None \<or> field_names = Some []) \<and> (limit = None \<or> limit = Some 0)))) \<and>
   get_query ''Account'' None None = Inl invalid_query"
proof -
  have f: "truthy_list field_names = (\<not> (field_names = None \<or> field_names = Some []))"
    by (cases field_names rule: truthy_list.cases) simp_all
  have l: "truthy_int limit = (\<not> (limit = None \<or> limit = Some 0))"
    by (cases limit) simp_all
  show ?thesis
    by (auto simp: get_query_def invalid_query_def f l Let_def)
qed

text \<open>
  C10. An empty field list is treated as an absent one and the limit 0 as an absent
  limit, in \<open>get_query\<close> and in \<open>get_records_list\<close>: the error is raised when the
  other argument is absent or falsy as well; otherwise \<open>fields=[]\<close> gives the clause
  \<open>FIELDS(ALL)\<close> and the limit 0 gives no \<open>LIMIT\<close> clause, in the query built and in
  the query that \<open>get_records_list\<close> runs; and \<open>get_records_list\<close> with a falsy field
  list and a falsy limit runs field discovery as it does for \<open>fields=None\<close>.
\<close>

theorem empty_as_absent:
  "get_query object_name (Some []) limit = get_query object_name None limit \<and>
   get_query object_name field_names (Some 0) = get_query object_name field_names None \<and>
   get_query object_name (Some []) None = Inl invalid_query \<and>
   get_query object_name (Some []) (Some 0) = Inl invalid_query \<and>
   get_query object_name None (Some 0) = Inl invalid_query \<and>
   get_records_list fromstring object_name (Some []) limit w =
     get_records_list fromstring object_name None limit w \<and>
   get_records_list fromstring object_name field_names (Some 0) w =
     get_records_list fromstring object_name field_names None w \<and>
   get_records_list fromstring object_name (Some []) None w =
     (case get_field_names fromstring object_name w of
        (Inl e, w1) \<Rightarrow> (Inl e, w1)
      | (Inr names, w1) \<Rightarrow>
          (case as_strings names of
             None \<Rightarrow> (Inl TypeError, w1)
           | Some ss \<Rightarrow> run_query fromstring object_name (Some ss) None w1)) \<and>
   (l \<noteq> 0 \<longrightarrow>
      get_query object_name (Some []) (Some l) =
        Inr (''queryAll/?q=SELECT+FIELDS(ALL)+FROM+'' @ object_name
             @ ''+LIMIT+'' @ str_int l)) \<and>
   (fs \<noteq> [] \<longrightarrow>
      get_query object_name (Some fs) (Some 0) =
        Inr (''queryAll/?q=SELECT+'' @ join '','' fs @ ''+FROM+'' @ object_name)) \<and>
   (l \<noteq> 0 \<longrightarrow>
      get_records_list fromstring object_name (Some []) (Some l) w =
        (case get_rest_query_results fromstring
                (''queryAll/?q=SELECT+FIELDS(ALL)+FROM+'' @ object_name
                 @ ''+LIMIT+'' @ str_int l) None w of
           (Inl e, w1) \<Rightarrow> (Inl e, w1)
         | (Inr raw_results, w1) \<Rightarrow> (Inr (map strip_attributes raw_results), w1))) \<and>
   (fs \<noteq> [] \<longrightarrow>
      get_records_list fromstring object_name (Some fs) (Some 0) w =
        (case get_rest_query_results fromstring
                (''queryAll/?q=SELECT+'' @ join '','' fs @ ''+FROM+'' @ object_name) None w of
           (Inl e, w1) \<Rightarrow> (Inl e, w1)
         | (Inr raw_results, w1) \<Rightarrow> (Inr (map strip_attributes raw_results), w1))) \<and>
   get_records_list fromstring object_name (Some []) (Some 0) w =
     (case get_field_names fromstring object_name w of
        (Inl e, w1) \<Rightarrow> (Inl e, w1)
      | (Inr names, w1) \<Rightarrow>
          (case as_strings names of
             None \<Rightarrow> (Inl TypeError, w1)
           | Some ss \<Rightarrow> run_query fromstring object_name (Some ss) None w1)) \<and>
   get_records_list fromstring object_name None (Some 0) w =
     (case get_field_names fromstring object_name w of
        (Inl e, w1) \<Rightarrow> (Inl e, w1)
      | (Inr names, w1) \<Rightarrow>
          (case as_strings names of
             None \<Rightarrow> (Inl TypeError, w1)
           | Some ss \<Rightarrow> run_query fromstring object_name (Some ss) None w1))"
proof -
  have q1: "get_query object_name (Some []) l = get_query object_name None l" for l
    by (simp add: get_query_def)
  have q2: "get_query object_name fs (Some 0) = get_query object_name fs None" for fs
    by (simp add: get_query_def)
  have r1: "run_query fromstring object_name (Some []) l v = run_query fromstring object_name None l v"
    for l v
    by (simp add: run_query_def q1)
  have r2: "run_query fromstring object_name fs (Some 0) v = run_query fromstring object_name fs None v"
    for fs v
    by (simp add: run_query_def q2)
  have g1: "get_records_list fromstring object_name (Some []) limit w =
            get_records_list fromstring object_name None limit w"
    unfolding get_records_list_def r1 by simp
  have g2: "get_records_list fromstring object_name field_names (Some 0) w =
            get_records_list fromstring object_name field_names None w"
    unfolding get_records_list_def r2 by simp
  have g3: "get_records_list fromstring object_name (Some []) None w =
     (case get_field_names fromstring object_name w of
        (Inl e, w1) \<Rightarrow> (Inl e, w1)
      | (Inr names, w1) \<Rightarrow>
          (case as_strings names of
             None \<Rightarrow> (Inl TypeError, w1)
           | Some ss \<Rightarrow> run_query fromstring object_name (Some ss) None w1))"
    by (simp add: get_records_list_def)
  have e: "get_query object_name None None = Inl invalid_query"
    by (simp add: get_query_def invalid_query_def)
  have first: "get_query object_name (Some []) limit = get_query object_name None limit \<and>
   get_query object_name field_names (Some 0) = get_query object_name field_names None \<and>
   get_query object_name (Some []) None = Inl invalid_query \<and>
   get_query object_name (Some []) (Some 0) = Inl invalid_query \<and>
   get_query object_name None (Some 0) = Inl invalid_query"
    by (simp add: q1 q2 e)
  have a: "get_query object_name (Some []) (Some l) =
        Inr (''queryAll/?q=SELECT+FIELDS(ALL)+FROM+'' @ object_name
             @ ''+LIMIT+'' @ str_int l)"
    if "l \<noteq> 0"
    using that by (simp add: get_query_def)
  have b: "get_query object_name (Some fs) (Some 0) =
        Inr (''queryAll/?q=SELECT+'' @ join '','' fs @ ''+FROM+'' @ object_name)"
    if "fs \<noteq> []"
    using that by (cases fs) (simp_all add: get_query_def)
  have c: "get_records_list fromstring object_name (Some []) (Some l) w =
        (case get_rest_query_results fromstring
                (''queryAll/?q=SELECT+FIELDS(ALL)+FROM+'' @ object_name
                 @ ''+LIMIT+'' @ str_int l) None w of
           (Inl e, w1) \<Rightarrow> (Inl e, w1)
         | (Inr raw_results, w1) \<Rightarrow> (Inr (map strip_attributes raw_results), w1))"
    if "l \<noteq> 0"
    using that by (simp add: get_records_list_def run_query_def a [OF that])
  have d: "get_records_list fromstring object_name (Some fs) (Some 0) w =
        (case get_rest_query_results fromstring
                (''queryAll/?q=SELECT+'' @ join '','' fs @ ''+FROM+'' @ object_name) None w of
           (Inl e, w1) \<Rightarrow> (Inl e, w1)
         | (Inr raw_results, w1) \<Rightarrow> (Inr (map strip_attributes raw_results), w1))"
    if "fs \<noteq> []"
  proof -
    have "truthy_list (Some fs)"
      using that by (cases fs) simp_all
    then show ?thesis
      by (simp add: get_records_list_def run_query_def b [OF that])
  qed
  have g4: "get_records_list fromstring object_name (Some []) (Some 0) w =
     (case get_field_names fromstring object_name w of
        (Inl e, w1) \<Rightarrow> (Inl e, w1)
      | (Inr names, w1) \<Rightarrow>
          (case as_strings names of
             None \<Rightarrow> (Inl TypeError, w1)
           | Some ss \<Rightarrow> run_query fromstring object_name (Some ss) None w1))"
    unfolding get_records_list_def r2 by simp
  have g5: "get_records_list fromstring object_name None (Some 0) w =
     (case get_field_names fromstring object_name w of
        (Inl e, w1) \<Rightarrow> (Inl e, w1)
      | (Inr names, w1) \<Rightarrow>
          (case as_strings names of
             None \<Rightarrow> (Inl TypeError, w1)
           | Some ss \<Rightarrow> run_query fromstring object_name (Some ss) None w1))"
    unfolding get_records_list_def r2 by simp
  show ?thesis
    using first g1 g2 g3 a b c d g4 g5 by blast
qed

text \<open>
  C10 on the two pages of the example: with \<open>fields=[]\<close> and the limit 5 the query has
  the clause \<open>FIELDS(ALL)\<close>, with two fields and the limit 0 it has no \<open>LIMIT\<close>
  clause, and \<open>get_records_list\<close> sends exactly these queries.
\<close>

theorem empty_as_absent_example:
  "get_query ''Account'' (Some []) (Some 5) =
     Inr ''queryAll/?q=SELECT+FIELDS(ALL)+FROM+Account+LIMIT+5'' \<and>
   get_query ''Account'' (Some [''Id'', ''Name'']) (Some 0) =
     Inr ''queryAll/?q=SELECT+Id,Name+FROM+Account'' \<and>
   get_records_list example_fromstring ''Account'' (Some []) (Some 5)
     (example_world (script two_pages)) =
     (Inr [[(''Id'', JStr ''001A'')], [(''Id'', JStr ''001B'')], [(''Id'', JStr ''001C'')]],
      after (example_world (script two_pages)) []
        [login_request example_base ''ada@example.com'' ''p&ss'' ''tok<1>'',
         data_request example_base ''queryAll/?q=SELECT+FIELDS(ALL)+FROM+Account+LIMIT+5''
           None (Some ''SID1''),
         login_request example_base ''ada@example.com'' ''p&ss'' ''tok<1>'',
         data_request example_base ''queryAll/?q=SELECT+FIELDS(ALL)+FROM+Account+LIMIT+5''
           (Some ''/cursor2'') (Some ''SID2'')] []) \<and>
   get_records_list example_fromstring ''Account'' (Some [''Id'', ''Name'']) (Some 0)
     (example_world (script two_pages)) =
     (Inr [[(''Id'', JStr ''001A'')], [(''Id'', JStr ''001B'')], [(''Id'', JStr ''001C'')]],
      after (example_world (script two_pages)) []
        [login_request example_base ''ada@example.com'' ''p&ss'' ''tok<1>'',
         data_request example_base ''queryAll/?q=SELECT+Id,Name+FROM+Account''
           None (Some ''SID1''),
         login_request example_base ''ada@example.com'' ''p&ss'' ''tok<1>'',
         data_request example_base ''queryAll/?q=SELECT+Id,Name+FROM+Account''
           (Some ''/cursor2'') (Some ''SID2'')] [])"
proof -
  note t = empty_as_absent
      [where object_name = "''Account''" and l = 5 and fs = "[''Id'', ''Name'']"
         and fromstring = example_fromstring and w = "example_world (script two_pages)"
         and limit = None and field_names = None,
       THEN conjunct2, THEN conjunct2, THEN conjunct2, THEN conjunct2, THEN conjunct2,
       THEN conjunct2, THEN conjunct2, THEN conjunct2]
  have five: "(5::int) \<noteq> 0" and two: "[''Id'', ''Name''] \<noteq> []"
    by simp_all
  have s5: "str_int 5 = ''5''"
    by (simp add: str_int_def str_nat.simps)
  have stripped: "strip_attributes record_A = [(''Id'', JStr ''001A'')]"
    "strip_attributes record_B = [(''Id'', JStr ''001B'')]"
    "strip_attributes record_C = [(''Id'', JStr ''001C'')]"
    by (simp_all add: strip_attributes_def record_A_def record_B_def record_C_def)
  have a: "get_query ''Account'' (Some []) (Some 5) =
     Inr ''queryAll/?q=SELECT+FIELDS(ALL)+FROM+Account+LIMIT+5''"
    using t [THEN conjunct1, rule_format, OF five] by (simp add: s5)
  have b: "get_query ''Account'' (Some [''Id'', ''Name'']) (Some 0) =
     Inr ''queryAll/?q=SELECT+Id,Name+FROM+Account''"
    using t [THEN conjunct2, THEN conjunct1, rule_format, OF two] by simp
  have c: "get_records_list example_fromstring ''Account'' (Some []) (Some 5)
     (example_world (script two_pages)) =
     (Inr [[(''Id'', JStr ''001A'')], [(''Id'', JStr ''001B'')], [(''Id'', JStr ''001C'')]],
      after (example_world (script two_pages)) []
        [login_request example_base ''ada@example.com'' ''p&ss'' ''tok<1>'',
         data_request example_base ''queryAll/?q=SELECT+FIELDS(ALL)+FROM+Account+LIMIT+5''
           None (Some ''SID1''),
         login_request example_base ''ada@example.com'' ''p&ss'' ''tok<1>'',
         data_request example_base ''queryAll/?q=SELECT+FIELDS(ALL)+FROM+Account+LIMIT+5''
           (Some ''/cursor2'') (Some ''SID2'')] [])"
    using t [THEN conjunct2, THEN conjunct2, THEN conjunct1, rule_format, OF five]
    by (simp add: s5 two_pages_run stripped)
  have d: "get_records_list example_fromstring ''Account'' (Some [''Id'', ''Name'']) (Some 0)
     (example_world (script two_pages)) =
     (Inr [[(''Id'', JStr ''001A'')], [(''Id'', JStr ''001B'')], [(''Id'', JStr ''001C'')]],
      after (example_world (script two_pages)) []
        [login_request example_base ''ada@example.com'' ''p&ss'' ''tok<1>'',
         data_request example_base ''queryAll/?q=SELECT+Id,Name+FROM+Account''
           None (Some ''SID1''),
         login_request example_base ''ada@example.com'' ''p&ss'' ''tok<1>'',
         data_request example_base ''queryAll/?q=SELECT+Id,Name+FROM+Account''
           (Some ''/cursor2'') (Some ''SID2'')] [])"
    using t [THEN conjunct2, THEN conjunct2, THEN conjunct2, THEN conjunct1, rule_format,
        OF two]
    by (simp add: two_pages_run stripped)
  show ?thesis
    using a b c d by simp
qed

section \<open>Credentials\<close>

text \<open>
  C9. When the three variables \<open><NAME>_USERNAME\<close>, \<open><NAME>_PASSWORD\<close> and
  \<open><NAME>_SECURITY_TOKEN\<close> are set, \<open>get_credentials\<close> returns a dict that holds
  the three values; when one of them is missing it raises \<open>KeyError\<close> for one of the
  three names; in both cases the world is left as it was.
\<close>

theorem get_credentials_reads_three_keys:
  "(environ w (upper integration @ ''_USERNAME'') = Some username \<and>
    environ w (upper integration @ ''_PASSWORD'') = Some password \<and>
    environ w (upper integration @ ''_SECURITY_TOKEN'') = Some security_token \<longrightarrow>
      get_credentials integration w =
        (Inr [(integration @ ''_password'', password),
              (integration @ ''_username'', username),
              (integration @ ''_security_token'', security_token)], w) \<and>
      subscript [(integration @ ''_password'', password),
                 (integration @ ''_username'', username),
                 (integration @ ''_security_token'', security_token)]
        (integration @ ''_username'') = Inr username \<and>
      subscript [(integration @ ''_password'', password),
                 (integration @ ''_username'', username),
                 (integration @ ''_security_token'', security_token)]
        (integration @ ''_security_token'') = Inr security_token) \<and>
   (environ w (upper integration @ ''_USERNAME'') = None \<or>
    environ w (upper integration @ ''_PASSWORD'') = None \<or>
    environ w (upper integration @ ''_SECURITY_TOKEN'') = None \<longrightarrow>
      fst (get_credentials integration w) \<in>
        {Inl (KeyError (upper integration @ ''_USERNAME'')),
         Inl (KeyError (upper integration @ ''_PASSWORD'')),
         Inl (KeyError (upper integration @ ''_SECURITY_TOKEN''))}) \<and>
   snd (get_credentials integration w) = w"
  by (auto simp: get_credentials_def os_environ_def subscript_def split: option.splits)

text \<open>
  C9 for the integration \<open>acme\<close>, with all three variables set and with the token
  missing.
\<close>

theorem get_credentials_acme:
  "get_credentials ''acme'' acme_world =
     (Inr [(''acme_password'', ''hunter2''), (''acme_username'', ''grace''),
           (''acme_security_token'', ''T0K'')], acme_world) \<and>
   fst (get_credentials ''acme'' acme_world_without_token) \<in>
     {Inl (KeyError ''ACME_USERNAME''), Inl (KeyError ''ACME_PASSWORD''),
      Inl (KeyError ''ACME_SECURITY_TOKEN'')} \<and>
   snd (get_credentials ''acme'' acme_world_without_token) = acme_world_without_token"
proof -
  have up: "upper ''acme'' = ''ACME''"
    by (simp add: upper_def upper_char_def)
  have set: "environ acme_world (upper ''acme'' @ ''_USERNAME'') = Some ''grace'' \<and>
             environ acme_world (upper ''acme'' @ ''_PASSWORD'') = Some ''hunter2'' \<and>
             environ acme_world (upper ''acme'' @ ''_SECURITY_TOKEN'') = Some ''T0K''"
    by (simp add: up acme_world_def)
  have unset: "environ acme_world_without_token (upper ''acme'' @ ''_USERNAME'') = None \<or>
               environ acme_world_without_token (upper ''acme'' @ ''_PASSWORD'') = None \<or>
               environ acme_world_without_token (upper ''acme'' @ ''_SECURITY_TOKEN'') = None"
    by (simp add: up acme_world_without_token_def)
  show ?thesis
    using get_credentials_reads_three_keys
        [where w = acme_world and integration = "''acme''" and username = "''grace''"
           and password = "''hunter2''" and security_token = "''T0K''",
         THEN conjunct1, rule_format, OF set, THEN conjunct1]
      get_credentials_reads_three_keys
        [where w = acme_world_without_token and integration = "''acme''",
         THEN conjunct2, THEN conjunct1, rule_format, OF unset]
      get_credentials_reads_three_keys
        [where w = acme_world_without_token and integration = "''acme''",
         THEN conjunct2, THEN conjunct2]
    by (simp add: up)
qed

section \<open>Escaping\<close>

lemma replace_char_concat:
  "replace_char k v (concat xss) = concat (map (replace_char k v) xss)"
  by (induction xss) (simp_all add: replace_char_def)

lemma replace_char_concat_map:
  "replace_char k v (concat (map g s)) = concat (map (\<lambda>c. replace_char k v (g c)) s)"
  by (simp add: replace_char_concat comp_def)

lemma replace_char_as_concat: "replace_char k v s = concat (map (\<lambda>c. replace_char k v [c]) s)"
  by (simp add: replace_char_def)

lemma escaped_char:
  "replace_char (CHR 0x22) ''&quot;''
     (replace_char (CHR 0x27) ''&apos;''
       (replace_char (CHR ''<'') ''&lt;''
         (replace_char (CHR ''>'') ''&gt;''
           (replace_char (CHR ''&'') ''&amp;'' [c])))) = entity c"
  by (simp add: replace_char_def entity_def)

lemma escape_chars_entities: "escape_chars s = concat (map entity s)"
proof -
  have "escape_chars s =
      replace_char (CHR 0x22) ''&quot;''
       (replace_char (CHR 0x27) ''&apos;''
         (replace_char (CHR ''<'') ''&lt;''
           (replace_char (CHR ''>'') ''&gt;''
             (replace_char (CHR ''&'') ''&amp;'' s))))"
    by (simp add: escape_chars_def escape_def)
  also have "\<dots> = concat (map (\<lambda>c. replace_char (CHR 0x22) ''&quot;''
       (replace_char (CHR 0x27) ''&apos;''
         (replace_char (CHR ''<'') ''&lt;''
           (replace_char (CHR ''>'') ''&gt;''
             (replace_char (CHR ''&'') ''&amp;'' [c]))))) s)"
    by (subst replace_char_as_concat [of "CHR ''&''"]) (simp only: replace_char_concat_map)
  finally show ?thesis
    by (simp only: escaped_char)
qed

lemma unescape_entity: "unescape (entity c @ rest) = c # unescape rest"
  by (simp add: entity_def)

lemma unescape_entities: "unescape (concat (map entity s)) = s"
  by (induction s) (simp_all add: unescape_entity del: unescape.simps(2))

lemma entity_no_markup:
  "set (entity c) \<inter> {CHR ''<'', CHR ''>'', CHR 0x27, CHR 0x22} = {}"
  by (simp add: entity_def)

text \<open>
  C8. For every string, unescaping the output of \<open>escape_chars\<close> gives the string
  back; the output is the string with each of the characters \<open>&\<close>, \<open>>\<close>,
  \<open><\<close>, apostrophe and quotation mark replaced by its entity reference, so none of
  \<open><\<close>, \<open>>\<close>, apostrophe and quotation mark is left in it.
\<close>

theorem escape_chars_roundtrip:
  "unescape (escape_chars s) = s \<and>
   escape_chars s = concat (map entity s) \<and>
   set (escape_chars s) \<inter> {CHR ''<'', CHR ''>'', CHR 0x27, CHR 0x22} = {}"
proof -
  have "set (concat (map entity s)) \<inter> {CHR ''<'', CHR ''>'', CHR 0x27, CHR 0x22} = {}"
    using entity_no_markup by (induction s) auto
  then show ?thesis
    by (simp add: escape_chars_entities unescape_entities)
qed

section \<open>Extracting the session id\<close>

lemma set_select_child:
  "set (select_child t es) = {c. \<exists>e \<in> set es. c \<in> set (elem_children e) \<and> elem_tag c = t}"
  by (auto simp: select_child_def)

lemma set_select_descendant:
  "set (select_descendant t es) =
     {d. \<exists>e \<in> set es. d \<in> set (concat (map iter (elem_children e))) \<and> elem_tag d = t}"
  by (auto simp: select_descendant_def)

lemma find_session_id_elem_None:
  "(find_session_id_elem root = None) = (\<not> has_session_id_below root)"
proof -
  let ?sel = "select_child (ns ''sessionId'')
             (select_child (ns ''result'')
               (select_child (ns ''loginResponse'')
                 (select_descendant (soapenv ''Body'') [root])))"
  have "(find_session_id_elem root = None) = (set ?sel = {})"
    by (simp add: find_session_id_elem_def split: list.splits)
  also have "\<dots> = (\<not> has_session_id_below root)"
    unfolding set_select_child set_select_descendant has_session_id_below_def list_ex_iff
    by (simp only: set_simps) blast
  finally show ?thesis .
qed

text \<open>
  C5 fails for a well-formed response whose root is not an \<open>Envelope\<close>: the path
  \<open>Envelope/Body/loginResponse/result/sessionId\<close> is missing, and the session id
  below the \<open>Body\<close> is returned all the same, with nothing printed.
\<close>

theorem wrapped_login_yields_session_id:
  "example_fromstring wrapped_text = Some wrapped_tree \<and>
   \<not> has_envelope_session_id wrapped_tree \<and>
   fst (extract_session_id example_fromstring wrapped_text (example_world [])) =
     Inr (Some ''SID9'') \<and>
   stdout (snd (extract_session_id example_fromstring wrapped_text (example_world []))) = []"
proof -
  have p: "example_fromstring wrapped_text = Some wrapped_tree"
    by (simp add: example_fromstring_def wrapped_text_def login_text_def)
  have n: "\<not> has_envelope_session_id wrapped_tree"
    by (simp add: has_envelope_session_id_def wrapped_tree_def soapenv_def ns_def)
  have f: "find_session_id_elem wrapped_tree = Some (Element (ns ''sessionId'') (Some ''SID9'') [])"
    by (simp add: find_session_id_elem_def wrapped_tree_def select_child_def
        select_descendant_def soapenv_def ns_def)
  show ?thesis
    by (simp add: p n extract_session_id_def f example_world_def)
qed

text \<open>
  C5. For every login response that parses and has no \<open>Body\<close> element below its
  root with the children \<open>loginResponse/result/sessionId\<close>, \<open>extract_session_id\<close>
  prints the warning and returns \<open>None\<close> without raising, so does \<open>get_session_id\<close>
  on a response with status 200, and the data request that follows is sent with
  \<open>Bearer None\<close>: a status other than 200 for it is the query error, not a parse
  error.
\<close>

theorem missing_session_id_is_soft:
  assumes parsed: "fromstring xml_str = Some root"
    and missing: "\<not> has_session_id_below root"
  shows "extract_session_id fromstring xml_str w =
           (Inr None, w\<lparr>stdout := stdout w @ [''sessionId not found in the response.'']\<rparr>) \<and>
         (environ w ''SALESFORCE_URL'' = Some base \<and> pending w = l # rest \<and>
          status_code l = 200 \<and> resp_text l = xml_str \<longrightarrow>
            get_session_id fromstring u p t w =
              (Inr None,
               after w rest [login_request base u p t]
                 [''sessionId not found in the response.''])) \<and>
         (configured w base u p t \<and> pending w = l # r # rest \<and>
          status_code l = 200 \<and> resp_text l = xml_str \<and> status_code r \<noteq> 200 \<longrightarrow>
            get_rest_query_results fromstring query next_url w =
              (Inl (query_failed r),
               after w rest
                 [login_request base u p t,
                  Get (query_url base query next_url)
                    [(''Authorization'', ''Bearer None''),
                     (''Content-Type'', ''application/json'')]]
                 [''sessionId not found in the response.'']))"
proof -
  have none: "find_session_id_elem root = None"
    using missing by (simp add: find_session_id_elem_None)
  have ex: "extract_session_id fromstring xml_str v =
              (Inr None, v\<lparr>stdout := stdout v @ [''sessionId not found in the response.'']\<rparr>)"
    for v
    by (simp add: extract_session_id_def parsed none print_def)
  have login: "get_session_id fromstring u p t w =
              (Inr None,
               after w rest [login_request base u p t]
                 [''sessionId not found in the response.''])"
    if "environ w ''SALESFORCE_URL'' = Some base" "pending w = l # rest"
      "status_code l = 200" "resp_text l = xml_str"
    using that by (simp add: get_session_id_reply [OF that(1,2)] ex after_def)
  have query: "get_rest_query_results fromstring query next_url w =
              (Inl (query_failed r),
               after w rest
                 [login_request base u p t,
                  Get (query_url base query next_url)
                    [(''Authorization'', ''Bearer None''),
                     (''Content-Type'', ''application/json'')]]
                 [''sessionId not found in the response.''])"
    if c: "configured w base u p t" and pd: "pending w = l # r # rest"
      and sl: "status_code l = 200" and tx: "resp_text l = xml_str"
      and sr: "status_code r \<noteq> 200"
  proof -
    have lg: "login_ok fromstring l"
      using sl tx parsed by (simp add: login_ok_def)
    have so: "session_of fromstring l = None"
      using tx parsed none by (simp add: session_of_def)
    have wo: "warnings_of fromstring l = [''sessionId not found in the response.'']"
      using tx parsed none by (simp add: warnings_of_def)
    show ?thesis
      by (simp add: query_fail_step [OF c pd lg sr] so wo data_request_def bearer_def)
  qed
  show ?thesis
    using ex login query by blast
qed

text \<open>
  C5 for a login response with a \<open>userId\<close> and no \<open>sessionId\<close>, followed by
  a 401 for the data request.
\<close>

theorem missing_session_id_example:
  "example_fromstring no_session_text = Some no_session_tree \<and>
   \<not> has_session_id_below no_session_tree \<and>
   get_rest_query_results example_fromstring example_query None
     (example_world [ok_response no_session_text, unauthorized]) =
     (Inl (query_failed unauthorized),
      after (example_world [ok_response no_session_text, unauthorized]) []
        [login_request example_base ''ada@example.com'' ''p&ss'' ''tok<1>'',
         Get (query_url example_base example_query None)
           [(''Authorization'', ''Bearer None''), (''Content-Type'', ''application/json'')]]
        [''sessionId not found in the response.''])"
proof -
  have p: "example_fromstring no_session_text = Some no_session_tree"
    by (simp add: example_fromstring_def no_session_text_def login_text_def wrapped_text_def)
  have n: "\<not> has_session_id_below no_session_tree"
    by (simp add: has_session_id_below_def no_session_tree_def soapenv_def ns_def)
  have h: "configured (example_world [ok_response no_session_text, unauthorized])
             example_base ''ada@example.com'' ''p&ss'' ''tok<1>'' \<and>
           pending (example_world [ok_response no_session_text, unauthorized]) =
             ok_response no_session_text # unauthorized # [] \<and>
           status_code (ok_response no_session_text) = 200 \<and>
           resp_text (ok_response no_session_text) = no_session_text \<and>
           status_code unauthorized \<noteq> 200"
    by (simp add: example_configured) (simp add: example_world_def ok_response_def unauthorized_def)
  show ?thesis
    using missing_session_id_is_soft
      [where fromstring = example_fromstring and xml_str = no_session_text
         and root = no_session_tree,
       OF p n, THEN conjunct2, THEN conjunct2, rule_format, OF h]
      p n
    by simp
qed

section \<open>Pagination\<close>

text \<open>
  C1. For every run of pages in which each page but the last carries a cursor, the
  executor returns the records of all pages, concatenated in the order fetched, and
  \<open>get_records_list\<close> returns them with the key \<open>attributes\<close> removed; the
  requests go out in page order, each page after the first at the cursor of the page
  before; no response is left unread or read twice; a page without \<open>records\<close>
  counts as an empty list.
\<close>

theorem pagination_returns_all_pages:
  assumes cfg: "configured w base u p t"
    and pag: "paginated f xs"
    and pend: "pending w = script xs @ rest"
    and q: "get_query object_name field_names limit = Inr query"
  shows "fst (get_rest_query_results f query None w) =
           Inr (concat (map (\<lambda>x. records_of (snd x)) xs)) \<and>
         fst (get_records_list f object_name field_names limit w) =
           Inr (map strip_attributes (concat (map (\<lambda>x. records_of (snd x)) xs))) \<and>
         sent (snd (get_rest_query_results f query None w)) =
           sent w @ requests_for f base u p t query None xs \<and>
         pending (snd (get_rest_query_results f query None w)) = rest \<and>
         length (concat (map (\<lambda>x. records_of (snd x)) xs)) =
           sum_list (map (\<lambda>x. length (records_of (snd x))) xs) \<and>
         records_of \<lparr>status_code = 200, resp_text = body,
                     resp_json = Object \<lparr>json_records = None, json_nextRecordsUrl = c,
                                       json_fields = fl\<rparr>\<rparr> = []"
proof -
  note run = paginated_run [OF cfg pag pend, of query None]
  have "get_records_list f object_name field_names limit w =
          (Inr (map strip_attributes (concat (map (\<lambda>x. records_of (snd x)) xs))),
           after w rest (requests_for f base u p t query None xs)
             (concat (map (\<lambda>x. warnings_of f (fst x)) xs)))"
    by (simp add: get_records_list_given [OF q] run_query_result [OF q run])
  then show ?thesis
    by (simp add: run length_concat comp_def records_of_def page_records_def)
qed

text \<open>
  C1 for the two pages of the example: the entry point returns A, B, C without
  \<open>attributes\<close>, and the second page is fetched at \<open>/cursor2\<close>.
\<close>

theorem two_page_example:
  "fst (get_records_list example_fromstring ''Account'' (Some [''Id'']) None
          (example_world (script two_pages))) =
     Inr [[(''Id'', JStr ''001A'')], [(''Id'', JStr ''001B'')], [(''Id'', JStr ''001C'')]] \<and>
   fst (get_rest_query_results example_fromstring example_query None
          (example_world (script two_pages))) =
     Inr [record_A, record_B, record_C] \<and>
   map request_url
     (sent (snd (get_rest_query_results example_fromstring example_query None
                   (example_world (script two_pages))))) =
     [''https://example.my.salesforce.com/services/Soap/u/60.0'',
      ''https://example.my.salesforce.com                 /services/data/v60.0/queryAll/?q=SELECT+Id+FROM+Account'',
      ''https://example.my.salesforce.com/services/Soap/u/60.0'',
      ''https://example.my.salesforce.com/cursor2'']"
  using pagination_returns_all_pages
    [OF example_configured two_pages_paginated two_pages_pending example_get_query]
  by (simp add: two_pages_def records_of_def page_records_def page1_def page2_def cursor_of_def
      strip_attributes_def record_A_def record_B_def record_C_def example_world_def
      login_request_def data_request_def query_url_def example_base_def example_query_def)

text \<open>
  C3. Without a cursor the URL that the executor requests is the base URL, seventeen
  blanks, and then \<open>/services/data/v60.0/<query>\<close>: it is not
  \<open><base_url>/services/data/v60.0/<query>\<close>. The first data request of the example
  run shows it.
\<close>

theorem first_page_url_has_blanks:
  "query_url base query None = base @ ''                 /services/data/v60.0/'' @ query \<and>
   query_url base query None \<noteq> base @ ''/services/data/v60.0/'' @ query \<and>
   map request_url
     (sent (snd (get_rest_query_results example_fromstring example_query None
                   (example_world (script two_pages))))) ! 1 =
     ''https://example.my.salesforce.com                 /services/data/v60.0/queryAll/?q=SELECT+Id+FROM+Account''"
  unfolding two_pages_run
  by (simp add: query_url_def data_request_def login_request_def example_world_def
      example_base_def example_query_def)

text \<open>
  C4 fails on the two pages of the example: the run logs in twice, and the second
  page is requested with the session id of the second login.
\<close>

theorem two_pages_log_in_twice:
  "length (filter is_login
     (sent (snd (get_rest_query_results example_fromstring example_query None
                   (example_world (script two_pages)))))) = 2 \<and>
   map authorization (filter (\<lambda>r. \<not> is_login r)
     (sent (snd (get_rest_query_results example_fromstring example_query None
                   (example_world (script two_pages)))))) =
     [Some ''Bearer SID1'', Some ''Bearer SID2'']"
  unfolding two_pages_run
  by (simp add: example_world_def login_request_def data_request_def bearer_def)

text \<open>
  C4. Within one query call the client logs in once for every page: the requests sent
  are, page by page, a login followed by the page's GET; there are as many logins as
  pages; and each GET carries the session id that the login just before it
  returned.
\<close>

theorem one_login_per_page:
  assumes cfg: "configured w base u p t"
    and pag: "paginated f xs"
    and pend: "pending w = script xs @ rest"
  shows "sent (snd (get_rest_query_results f query next_url w)) =
           sent w @ requests_for f base u p t query next_url xs \<and>
         length (filter is_login (requests_for f base u p t query next_url xs)) = length xs \<and>
         map authorization
           (filter (\<lambda>r. \<not> is_login r) (requests_for f base u p t query next_url xs)) =
           map (\<lambda>x. Some (bearer (session_of f (fst x)))) xs"
  by (simp add: paginated_run [OF cfg pag pend] requests_for_logins requests_for_authorizations)

text \<open>
  C4 for the two pages of the example.
\<close>

theorem one_login_per_page_example:
  "sent (snd (get_rest_query_results example_fromstring example_query None
                (example_world (script two_pages)))) =
     [login_request example_base ''ada@example.com'' ''p&ss'' ''tok<1>'',
      data_request example_base example_query None (Some ''SID1''),
      login_request example_base ''ada@example.com'' ''p&ss'' ''tok<1>'',
      data_request example_base example_query (Some ''/cursor2'') (Some ''SID2'')]"
  using one_login_per_page [OF example_configured two_pages_paginated two_pages_pending,
      where query = example_query and next_url = None]
  by (simp add: two_pages_def example_world_def cursor_of_def page1_def
      session_of_login1 session_of_login2)

section \<open>Failing responses\<close>

text \<open>
  C7. A response with a status other than 200 makes the operation raise an error that
  carries the status code and the body text: on the login endpoint, on the data query
  (also after any number of pages, and also when it is the login for a later page that
  fails), and on the describe endpoint (also when it is the login of field discovery
  that fails). \<open>get_records_list\<close> raises the same error, with the field list given
  and with the field list discovered, whether the failure is in discovery or in any
  page after it: no partial list is returned, the failing request is the last one sent
  and the responses after it stay unread.
\<close>

theorem non_200_aborts:
  assumes cfg: "configured w base u p t"
  shows "(pending w = l # rest \<and> status_code l \<noteq> 200 \<longrightarrow>
            get_session_id f u' p' t' w =
              (Inl (Exception (''Authentication failed with status code ''
                      @ str_int (status_code l) @ '': '' @ resp_text l)),
               after w rest [login_request base u' p' t'] [])) \<and>
         (continuing f xs \<and> pending w = script xs @ l # rest \<and> status_code l \<noteq> 200 \<longrightarrow>
            get_rest_query_results f query next_url w =
              (Inl (Exception (''Authentication failed with status code ''
                      @ str_int (status_code l) @ '': '' @ resp_text l)),
               after w rest
                 (requests_for f base u p t query next_url xs @ [login_request base u p t])
                 (concat (map (\<lambda>x. warnings_of f (fst x)) xs)))) \<and>
         (continuing f xs \<and> pending w = script xs @ l # r # rest \<and> login_ok f l \<and>
          status_code r \<noteq> 200 \<longrightarrow>
            get_rest_query_results f query next_url w =
              (Inl (Exception (''REST query failed with a status of ''
                      @ ''                        ''
                      @ str_int (status_code r) @ '': '' @ resp_text r)),
               after w rest
                 (requests_for f base u p t query next_url xs @
                  [login_request base u p t,
                   data_request base query (cursor_after next_url xs) (session_of f l)])
                 (concat (map (\<lambda>x. warnings_of f (fst x)) xs) @ warnings_of f l))) \<and>
         (pending w = l # r # rest \<and> login_ok f l \<and> status_code r \<noteq> 200 \<longrightarrow>
            get_field_names f object_name w =
              (Inl (Exception (''Field name query failed with a status of ''
                      @ str_int (status_code r) @ '': '' @ resp_text r)),
               after w rest
                 [login_request base u p t,
                  Get (base @ ''/services/data/v60.0/sobjects/'' @ object_name @ ''/describe/'')
                    [(''Authorization'', bearer (session_of f l))]]
                 (warnings_of f l))) \<and>
         (get_query object_name field_names limit = Inr query \<and>
          fst (get_rest_query_results f query None w) = Inl e \<longrightarrow>
            fst (get_records_list f object_name field_names limit w) = Inl e) \<and>
         (\<not> truthy_list field_names \<and> \<not> truthy_int limit \<and>
          fst (get_field_names f object_name w) = Inl e \<longrightarrow>
            fst (get_records_list f object_name field_names limit w) = Inl e) \<and>
         (pending w = l # rest \<and> status_code l \<noteq> 200 \<longrightarrow>
            get_field_names f object_name w =
              (Inl (Exception (''Authentication failed with status code ''
                      @ str_int (status_code l) @ '': '' @ resp_text l)),
               after w rest [login_request base u p t] [])) \<and>
         (\<not> truthy_list field_names \<and> \<not> truthy_int limit \<and>
          pending w = l # rest \<and> status_code l \<noteq> 200 \<longrightarrow>
            get_records_list f object_name field_names limit w =
              (Inl (Exception (''Authentication failed with status code ''
                      @ str_int (status_code l) @ '': '' @ resp_text l)),
               after w rest [login_request base u p t] [])) \<and>
         (\<not> truthy_list field_names \<and> \<not> truthy_int limit \<and>
          pending w = l # r # rest \<and> login_ok f l \<and>
          status_code r \<noteq> 200 \<longrightarrow>
            get_records_list f object_name field_names limit w =
              (Inl (Exception (''Field name query failed with a status of ''
                      @ str_int (status_code r) @ '': '' @ resp_text r)),
               after w rest
                 [login_request base u p t,
                  describe_request base object_name (session_of f l)]
                 (warnings_of f l))) \<and>
         (\<not> truthy_list field_names \<and> \<not> truthy_int limit \<and>
          pending w = dl # dr # script xs @ l # rest \<and> discovery_ok f dl dr ss \<and>
          ss \<noteq> [] \<and> continuing f xs \<and>
          status_code l \<noteq> 200 \<longrightarrow>
            get_records_list f object_name field_names limit w =
              (Inl (Exception (''Authentication failed with status code ''
                      @ str_int (status_code l) @ '': '' @ resp_text l)),
               after w rest
                 ([login_request base u p t,
                   describe_request base object_name (session_of f dl)] @
                  requests_for f base u p t
                    (''queryAll/?q=SELECT+'' @ join '','' ss @ ''+FROM+'' @ object_name)
                    None xs @
                  [login_request base u p t])
                 (warnings_of f dl @ concat (map (\<lambda>x. warnings_of f (fst x)) xs)))) \<and>
         (\<not> truthy_list field_names \<and> \<not> truthy_int limit \<and>
          pending w = dl # dr # script xs @ l # r # rest \<and>
          discovery_ok f dl dr ss \<and> ss \<noteq> [] \<and> continuing f xs \<and>
          login_ok f l \<and> status_code r \<noteq> 200 \<longrightarrow>
            get_records_list f object_name field_names limit w =
              (Inl (Exception (''REST query failed with a status of ''
                      @ ''                        ''
                      @ str_int (status_code r) @ '': '' @ resp_text r)),
               after w rest
                 ([login_request base u p t,
                   describe_request base object_name (session_of f dl)] @
                  requests_for f base u p t
                    (''queryAll/?q=SELECT+'' @ join '','' ss @ ''+FROM+'' @ object_name)
                    None xs @
                  [login_request base u p t,
                   data_request base
                     (''queryAll/?q=SELECT+'' @ join '','' ss @ ''+FROM+'' @ object_name)
                     (cursor_after None xs) (session_of f l)])
                 (warnings_of f dl @ concat (map (\<lambda>x. warnings_of f (fst x)) xs)
                  @ warnings_of f l))) \<and>
         (get_query object_name field_names limit = Inr query \<and> continuing f xs \<and>
          pending w = script xs @ l # rest \<and>
          status_code l \<noteq> 200 \<longrightarrow>
            get_records_list f object_name field_names limit w =
              (Inl (Exception (''Authentication failed with status code ''
                      @ str_int (status_code l) @ '': '' @ resp_text l)),
               after w rest
                 (requests_for f base u p t query None xs @ [login_request base u p t])
                 (concat (map (\<lambda>x. warnings_of f (fst x)) xs)))) \<and>
         (get_query object_name field_names limit = Inr query \<and> continuing f xs \<and>
          pending w = script xs @ l # r # rest \<and> login_ok f l \<and>
          status_code r \<noteq> 200 \<longrightarrow>
            get_records_list f object_name field_names limit w =
              (Inl (Exception (''REST query failed with a status of ''
                      @ ''                        ''
                      @ str_int (status_code r) @ '': '' @ resp_text r)),
               after w rest
                 (requests_for f base u p t query None xs @
                  [login_request base u p t,
                   data_request base query (cursor_after None xs) (session_of f l)])
                 (concat (map (\<lambda>x. warnings_of f (fst x)) xs) @ warnings_of f l)))"
proof -
  have url: "environ w ''SALESFORCE_URL'' = Some base"
    using cfg by (simp add: configured_def)
  have a: "get_session_id f u' p' t' w =
              (Inl (Exception (''Authentication failed with status code ''
                      @ str_int (status_code l) @ '': '' @ resp_text l)),
               after w rest [login_request base u' p' t'] [])"
    if "pending w = l # rest" "status_code l \<noteq> 200"
    using that by (simp add: get_session_id_reply [OF url that(1)] auth_failed_def after_def)
  have b: "get_rest_query_results f query next_url w =
              (Inl (Exception (''Authentication failed with status code ''
                      @ str_int (status_code l) @ '': '' @ resp_text l)),
               after w rest
                 (requests_for f base u p t query next_url xs @ [login_request base u p t])
                 (concat (map (\<lambda>x. warnings_of f (fst x)) xs)))"
    if "continuing f xs" "pending w = script xs @ l # rest" "status_code l \<noteq> 200"
    using continuing_login_fail [OF cfg that] by (simp add: auth_failed_def)
  have c: "get_rest_query_results f query next_url w =
              (Inl (Exception (''REST query failed with a status of ''
                      @ ''                        ''
                      @ str_int (status_code r) @ '': '' @ resp_text r)),
               after w rest
                 (requests_for f base u p t query next_url xs @
                  [login_request base u p t,
                   data_request base query (cursor_after next_url xs) (session_of f l)])
                 (concat (map (\<lambda>x. warnings_of f (fst x)) xs) @ warnings_of f l))"
    if "continuing f xs" "pending w = script xs @ l # r # rest" "login_ok f l"
      "status_code r \<noteq> 200"
    using continuing_query_fail [OF cfg that] by (simp add: query_failed_def)
  have d: "get_field_names f object_name w =
              (Inl (Exception (''Field name query failed with a status of ''
                      @ str_int (status_code r) @ '': '' @ resp_text r)),
               after w rest
                 [login_request base u p t,
                  Get (base @ ''/services/data/v60.0/sobjects/'' @ object_name @ ''/describe/'')
                    [(''Authorization'', bearer (session_of f l))]]
                 (warnings_of f l))"
    if "pending w = l # r # rest" "login_ok f l" "status_code r \<noteq> 200"
    using describe_fail_step [OF cfg that] by (simp add: describe_failed_def)
  have e1: "fst (get_records_list f object_name field_names limit w) = Inl e"
    if q: "get_query object_name field_names limit = Inr query"
      and r: "fst (get_rest_query_results f query None w) = Inl e"
  proof -
    obtain w' where "get_rest_query_results f query None w = (Inl e, w')"
      using r by (cases "get_rest_query_results f query None w") simp
    then show ?thesis
      by (simp add: get_records_list_given [OF q] run_query_error [OF q])
  qed
  have e2: "fst (get_records_list f object_name field_names limit w) = Inl e"
    if "\<not> truthy_list field_names" "\<not> truthy_int limit"
      "fst (get_field_names f object_name w) = Inl e"
    using that
    by (cases "get_field_names f object_name w") (simp add: get_records_list_def)
  have g: "get_field_names f object_name w =
              (Inl (Exception (''Authentication failed with status code ''
                      @ str_int (status_code l) @ '': '' @ resp_text l)),
               after w rest [login_request base u p t] [])"
    if "pending w = l # rest" "status_code l \<noteq> 200"
    using describe_login_fail_step [OF cfg that] by (simp add: auth_failed_def)
  have h: "get_records_list f object_name field_names limit w =
              (Inl (Exception (''Authentication failed with status code ''
                      @ str_int (status_code l) @ '': '' @ resp_text l)),
               after w rest [login_request base u p t] [])"
    if "\<not> truthy_list field_names" "\<not> truthy_int limit" "pending w = l # rest" "status_code l \<noteq> 200"
    using that by (simp add: get_records_list_def g [OF that(3,4)])
  have i: "get_records_list f object_name field_names limit w =
              (Inl (Exception (''Field name query failed with a status of ''
                      @ str_int (status_code r) @ '': '' @ resp_text r)),
               after w rest
                 [login_request base u p t,
                  describe_request base object_name (session_of f l)]
                 (warnings_of f l))"
    if "\<not> truthy_list field_names" "\<not> truthy_int limit" "pending w = l # r # rest" "login_ok f l" "status_code r \<noteq> 200"
    using that by (simp add: get_records_list_def d [OF that(3,4,5)] describe_request_def)
  have j: "get_records_list f object_name field_names limit w =
              (Inl (Exception (''Authentication failed with status code ''
                      @ str_int (status_code l) @ '': '' @ resp_text l)),
               after w rest
                 ([login_request base u p t,
                   describe_request base object_name (session_of f dl)] @
                  requests_for f base u p t
                    (''queryAll/?q=SELECT+'' @ join '','' ss @ ''+FROM+'' @ object_name)
                    None xs @
                  [login_request base u p t])
                 (warnings_of f dl @ concat (map (\<lambda>x. warnings_of f (fst x)) xs)))"
    if "\<not> truthy_list field_names" "\<not> truthy_int limit" "pending w = dl # dr # script xs @ l # rest" "discovery_ok f dl dr ss" "ss \<noteq> []" "continuing f xs" "status_code l \<noteq> 200"
  proof -
    let ?w1 = "after w (script xs @ l # rest)
                 [login_request base u p t,
                  describe_request base object_name (session_of f dl)]
                 (warnings_of f dl)"
    have cfg1: "configured ?w1 base u p t"
      using cfg by simp
    have pd1: "pending ?w1 = script xs @ l # rest"
      by simp
    note run = continuing_login_fail [OF cfg1 that(6) pd1 that(7),
        of "''queryAll/?q=SELECT+'' @ join '','' ss @ ''+FROM+'' @ object_name" None]
    show ?thesis
      using discovered_run [OF cfg that(1,2,3,4,5) run] by (simp add: auth_failed_def)
  qed
  have k: "get_records_list f object_name field_names limit w =
              (Inl (Exception (''REST query failed with a status of ''
                      @ ''                        ''
                      @ str_int (status_code r) @ '': '' @ resp_text r)),
               after w rest
                 ([login_request base u p t,
                   describe_request base object_name (session_of f dl)] @
                  requests_for f base u p t
                    (''queryAll/?q=SELECT+'' @ join '','' ss @ ''+FROM+'' @ object_name)
                    None xs @
                  [login_request base u p t,
                   data_request base
                     (''queryAll/?q=SELECT+'' @ join '','' ss @ ''+FROM+'' @ object_name)
                     (cursor_after None xs) (session_of f l)])
                 (warnings_of f dl @ concat (map (\<lambda>x. warnings_of f (fst x)) xs)
                  @ warnings_of f l))"
    if "\<not> truthy_list field_names" "\<not> truthy_int limit" "pending w = dl # dr # script xs @ l # r # rest" "discovery_ok f dl dr ss" "ss \<noteq> []" "continuing f xs" "login_ok f l" "status_code r \<noteq> 200"
  proof -
    let ?w1 = "after w (script xs @ l # r # rest)
                 [login_request base u p t,
                  describe_request base object_name (session_of f dl)]
                 (warnings_of f dl)"
    have cfg1: "configured ?w1 base u p t"
      using cfg by simp
    have pd1: "pending ?w1 = script xs @ l # r # rest"
      by simp
    note run = continuing_query_fail [OF cfg1 that(6) pd1 that(7,8),
        of "''queryAll/?q=SELECT+'' @ join '','' ss @ ''+FROM+'' @ object_name" None]
    show ?thesis
      using discovered_run [OF cfg that(1,2,3,4,5) run] by (simp add: query_failed_def)
  qed
  have m: "get_records_list f object_name field_names limit w =
              (Inl (Exception (''Authentication failed with status code ''
                      @ str_int (status_code l) @ '': '' @ resp_text l)),
               after w rest
                 (requests_for f base u p t query None xs @ [login_request base u p t])
                 (concat (map (\<lambda>x. warnings_of f (fst x)) xs)))"
    if "get_query object_name field_names limit = Inr query" "continuing f xs" "pending w = script xs @ l # rest" "status_code l \<noteq> 200"
    using run_query_error [OF that(1) continuing_login_fail [OF cfg that(2,3,4), of query None]]
    by (simp add: get_records_list_given [OF that(1)] auth_failed_def)
  have n: "get_records_list f object_name field_names limit w =
              (Inl (Exception (''REST query failed with a status of ''
                      @ ''                        ''
                      @ str_int (status_code r) @ '': '' @ resp_text r)),
               after w rest
                 (requests_for f base u p t query None xs @
                  [login_request base u p t,
                   data_request base query (cursor_after None xs) (session_of f l)])
                 (concat (map (\<lambda>x. warnings_of f (fst x)) xs) @ warnings_of f l))"
    if "get_query object_name field_names limit = Inr query" "continuing f xs" "pending w = script xs @ l # r # rest" "login_ok f l" "status_code r \<noteq> 200"
    using run_query_error
      [OF that(1) continuing_query_fail [OF cfg that(2,3,4,5), of query None]]
    by (simp add: get_records_list_given [OF that(1)] query_failed_def)
  show ?thesis
    by (intro conjI impI; elim conjE; (rule a b c d e1 e2 g h i j k m n; assumption))
qed

text \<open>
  C7 for a 503: on the login, on the login for the second page, on the second page,
  on the describe request and on the login before it, and on the second login and the
  second page of a call that discovered its fields.
\<close>

theorem non_200_aborts_example:
  "fst (get_session_id example_fromstring ''ada@example.com'' ''p&ss'' ''tok<1>''
          (example_world [unavailable])) =
     Inl (Exception ''Authentication failed with status code 503: Service Unavailable'') \<and>
   fst (get_rest_query_results example_fromstring example_query None
          (example_world [ok_response (login_text ''SID1''), page1, unavailable])) =
     Inl (Exception ''Authentication failed with status code 503: Service Unavailable'') \<and>
   get_rest_query_results example_fromstring example_query None
     (example_world [ok_response (login_text ''SID1''), page1,
                     ok_response (login_text ''SID2''), unavailable]) =
     (Inl (Exception (''REST query failed with a status of ''
             @ ''                        '' @ ''503: Service Unavailable'')),
      after (example_world [ok_response (login_text ''SID1''), page1,
                            ok_response (login_text ''SID2''), unavailable]) []
        [login_request example_base ''ada@example.com'' ''p&ss'' ''tok<1>'',
         data_request example_base example_query None (Some ''SID1''),
         login_request example_base ''ada@example.com'' ''p&ss'' ''tok<1>'',
         data_request example_base example_query (Some ''/cursor2'') (Some ''SID2'')] []) \<and>
   fst (get_records_list example_fromstring ''Account'' (Some [''Id'']) None
          (example_world [ok_response (login_text ''SID1''), page1,
                          ok_response (login_text ''SID2''), unavailable])) =
     Inl (Exception (''REST query failed with a status of ''
             @ ''                        '' @ ''503: Service Unavailable'')) \<and>
   fst (get_field_names example_fromstring ''Account''
          (example_world [ok_response (login_text ''SID1''), unavailable])) =
     Inl (Exception ''Field name query failed with a status of 503: Service Unavailable'') \<and>
   fst (get_records_list example_fromstring ''Account'' None None
          (example_world [ok_response (login_text ''SID1''), unavailable])) =
     Inl (Exception ''Field name query failed with a status of 503: Service Unavailable'') \<and>
   fst (get_field_names example_fromstring ''Account'' (example_world [unavailable])) =
     Inl (Exception ''Authentication failed with status code 503: Service Unavailable'') \<and>
   fst (get_records_list example_fromstring ''Account'' None None
          (example_world [unavailable])) =
     Inl (Exception ''Authentication failed with status code 503: Service Unavailable'') \<and>
   fst (get_records_list example_fromstring ''Account'' (Some []) (Some 0)
          (example_world [ok_response (login_text ''SID1''), unavailable])) =
     Inl (Exception ''Field name query failed with a status of 503: Service Unavailable'') \<and>
   get_records_list example_fromstring ''Account'' None None
     (example_world [ok_response (login_text ''SID1''), describe_ok, ok_response (login_text ''SID1''), page1, unavailable]) =
     (Inl (Exception ''Authentication failed with status code 503: Service Unavailable''),
      after (example_world [ok_response (login_text ''SID1''), describe_ok, ok_response (login_text ''SID1''), page1, unavailable]) []
        [login_request example_base ''ada@example.com'' ''p&ss'' ''tok<1>'',
         describe_request example_base ''Account'' (Some ''SID1''),
         login_request example_base ''ada@example.com'' ''p&ss'' ''tok<1>'',
         data_request example_base ''queryAll/?q=SELECT+Id,Name+FROM+Account'' None
           (Some ''SID1''),
         login_request example_base ''ada@example.com'' ''p&ss'' ''tok<1>''] []) \<and>
   get_records_list example_fromstring ''Account'' None None
     (example_world [ok_response (login_text ''SID1''), describe_ok, ok_response (login_text ''SID1''), page1, ok_response (login_text ''SID2''), unavailable]) =
     (Inl (Exception (''REST query failed with a status of ''
             @ ''                        '' @ ''503: Service Unavailable'')),
      after (example_world [ok_response (login_text ''SID1''), describe_ok, ok_response (login_text ''SID1''), page1, ok_response (login_text ''SID2''), unavailable]) []
        [login_request example_base ''ada@example.com'' ''p&ss'' ''tok<1>'',
         describe_request example_base ''Account'' (Some ''SID1''),
         login_request example_base ''ada@example.com'' ''p&ss'' ''tok<1>'',
         data_request example_base ''queryAll/?q=SELECT+Id,Name+FROM+Account'' None
           (Some ''SID1''),
         login_request example_base ''ada@example.com'' ''p&ss'' ''tok<1>'',
         data_request example_base ''queryAll/?q=SELECT+Id,Name+FROM+Account''
           (Some ''/cursor2'') (Some ''SID2'')] []) \<and>
   get_records_list example_fromstring ''Account'' (Some [''Id'']) None
     (example_world [ok_response (login_text ''SID1''), page1, unavailable]) =
     (Inl (Exception ''Authentication failed with status code 503: Service Unavailable''),
      after (example_world [ok_response (login_text ''SID1''), page1, unavailable]) []
        [login_request example_base ''ada@example.com'' ''p&ss'' ''tok<1>'',
         data_request example_base example_query None (Some ''SID1''),
         login_request example_base ''ada@example.com'' ''p&ss'' ''tok<1>''] []) \<and>
   get_records_list example_fromstring ''Account'' (Some [''Id'']) None
     (example_world [ok_response (login_text ''SID1''), page1, ok_response (login_text ''SID2''), unavailable]) =
     (Inl (Exception (''REST query failed with a status of ''
             @ ''                        '' @ ''503: Service Unavailable'')),
      after (example_world [ok_response (login_text ''SID1''), page1, ok_response (login_text ''SID2''), unavailable]) []
        [login_request example_base ''ada@example.com'' ''p&ss'' ''tok<1>'',
         data_request example_base example_query None (Some ''SID1''),
         login_request example_base ''ada@example.com'' ''p&ss'' ''tok<1>'',
         data_request example_base example_query (Some ''/cursor2'') (Some ''SID2'')] [])"
proof -
  let ?l1 = "ok_response (login_text ''SID1'')" and ?l2 = "ok_response (login_text ''SID2'')"
  let ?u = "''ada@example.com''" and ?p = "''p&ss''" and ?t = "''tok<1>''"
  let ?failed = "Exception (''REST query failed with a status of ''
             @ ''                        '' @ ''503: Service Unavailable'')"
  have s503: "str_int 503 = ''503''"
    by (simp add: str_int_def str_nat.simps)
  have st: "status_code unavailable \<noteq> 200" "status_code unavailable = 503"
    "resp_text unavailable = ''Service Unavailable''"
    by (simp_all add: unavailable_def)
  have pd: "pending (example_world rs) = rs" for rs
    by (simp add: example_world_def)
  have hA: "pending (example_world [unavailable]) = unavailable # [] \<and>
            status_code unavailable \<noteq> 200"
    by (simp add: pd st)
  have A: "fst (get_session_id example_fromstring ?u ?p ?t (example_world [unavailable])) =
     Inl (Exception ''Authentication failed with status code 503: Service Unavailable'')"
    using non_200_aborts
        [where w = "example_world [unavailable]" and base = example_base and u = ?u
           and p = ?p and t = ?t and l = unavailable and rest = "[]"
           and f = example_fromstring and u' = ?u and p' = ?p and t' = ?t,
         OF example_configured, THEN conjunct1, rule_format, OF hA]
    by (simp add: st s503)
  have hB: "continuing example_fromstring [(?l1, page1)] \<and>
            pending (example_world [?l1, page1, unavailable]) =
              script [(?l1, page1)] @ unavailable # [] \<and>
            status_code unavailable \<noteq> 200"
    by (simp add: pd st first_page_continuing del: continuing.simps)
  have B: "fst (get_rest_query_results example_fromstring example_query None
          (example_world [?l1, page1, unavailable])) =
     Inl (Exception ''Authentication failed with status code 503: Service Unavailable'')"
    using non_200_aborts
        [where w = "example_world [?l1, page1, unavailable]" and base = example_base
           and u = ?u and p = ?p and t = ?t and l = unavailable and rest = "[]"
           and f = example_fromstring and xs = "[(?l1, page1)]" and query = example_query
           and next_url = None,
         OF example_configured, THEN conjunct2, THEN conjunct1, rule_format, OF hB]
    by (simp add: st s503)
  have hC: "continuing example_fromstring [(?l1, page1)] \<and>
            pending (example_world [?l1, page1, ?l2, unavailable]) =
              script [(?l1, page1)] @ ?l2 # unavailable # [] \<and>
            login_ok example_fromstring ?l2 \<and> status_code unavailable \<noteq> 200"
    by (simp add: pd st first_page_continuing login2_ok del: continuing.simps)
  have C: "get_rest_query_results example_fromstring example_query None
     (example_world [?l1, page1, ?l2, unavailable]) =
     (Inl ?failed,
      after (example_world [?l1, page1, ?l2, unavailable]) []
        [login_request example_base ?u ?p ?t,
         data_request example_base example_query None (Some ''SID1''),
         login_request example_base ?u ?p ?t,
         data_request example_base example_query (Some ''/cursor2'') (Some ''SID2'')] [])"
    using non_200_aborts
        [where w = "example_world [?l1, page1, ?l2, unavailable]" and base = example_base
           and u = ?u and p = ?p and t = ?t and l = ?l2 and r = unavailable and rest = "[]"
           and f = example_fromstring and xs = "[(?l1, page1)]" and query = example_query
           and next_url = None,
         OF example_configured, THEN conjunct2, THEN conjunct2, THEN conjunct1,
         rule_format, OF hC]
    by (simp add: st s503 session_of_login1 session_of_login2 warnings_of_login1
        warnings_of_login2 cursor_of_def page1_def)
  have hD: "pending (example_world [?l1, unavailable]) = ?l1 # unavailable # [] \<and>
            login_ok example_fromstring ?l1 \<and> status_code unavailable \<noteq> 200"
    by (simp add: pd st login1_ok)
  have D: "fst (get_field_names example_fromstring ''Account''
          (example_world [?l1, unavailable])) =
     Inl (Exception ''Field name query failed with a status of 503: Service Unavailable'')"
    using non_200_aborts
        [where w = "example_world [?l1, unavailable]" and base = example_base
           and u = ?u and p = ?p and t = ?t and l = ?l1 and r = unavailable and rest = "[]"
           and f = example_fromstring and object_name = "''Account''",
         OF example_configured, THEN conjunct2, THEN conjunct2, THEN conjunct2,
         THEN conjunct1, rule_format, OF hD]
    by (simp add: st s503)
  have hE: "get_query ''Account'' (Some [''Id'']) None = Inr example_query \<and>
            fst (get_rest_query_results example_fromstring example_query None
                  (example_world [?l1, page1, ?l2, unavailable])) = Inl ?failed"
    by (simp add: example_get_query C)
  have E: "fst (get_records_list example_fromstring ''Account'' (Some [''Id'']) None
          (example_world [?l1, page1, ?l2, unavailable])) = Inl ?failed"
    using non_200_aborts
        [where w = "example_world [?l1, page1, ?l2, unavailable]" and base = example_base
           and u = ?u and p = ?p and t = ?t and f = example_fromstring
           and object_name = "''Account''" and field_names = "Some [''Id'']"
           and limit = None and query = example_query and e = ?failed,
         OF example_configured, THEN conjunct2, THEN conjunct2, THEN conjunct2,
         THEN conjunct2, THEN conjunct1, rule_format, OF hE]
    by simp
  have hF: "\<not> truthy_list (None :: string list option) \<and> \<not> truthy_int None \<and>
            fst (get_field_names example_fromstring ''Account''
                  (example_world [?l1, unavailable])) =
              Inl (Exception
                ''Field name query failed with a status of 503: Service Unavailable'')"
    by (simp add: D)
  have F: "fst (get_records_list example_fromstring ''Account'' None None
          (example_world [?l1, unavailable])) =
     Inl (Exception ''Field name query failed with a status of 503: Service Unavailable'')"
    using non_200_aborts
        [where w = "example_world [?l1, unavailable]" and base = example_base
           and u = ?u and p = ?p and t = ?t and f = example_fromstring
           and object_name = "''Account''" and field_names = None and limit = None
           and e = "Exception
                ''Field name query failed with a status of 503: Service Unavailable''",
         OF example_configured, THEN conjunct2, THEN conjunct2, THEN conjunct2,
         THEN conjunct2, THEN conjunct2, THEN conjunct1, rule_format, OF hF]
    by simp
  have disc: "discovery_ok example_fromstring ?l1 describe_ok [''Id'', ''Name'']"
    by (simp add: discovery_ok_def login1_ok describe_ok_def)
  have hG: "pending (example_world [unavailable]) = unavailable # [] \<and>
            status_code unavailable \<noteq> 200"
    by (simp add: pd st)
  have G: "fst (get_field_names example_fromstring ''Account'' (example_world [unavailable])) =
     Inl (Exception ''Authentication failed with status code 503: Service Unavailable'')"
    using non_200_aborts
        [where w = "example_world [unavailable]"
           and base = example_base and u = ?u and p = ?p and t = ?t
           and l = unavailable and rest = "[]"
           and f = example_fromstring and object_name = "''Account''",
         OF example_configured, THEN conjunct2, THEN conjunct2, THEN conjunct2,
         THEN conjunct2, THEN conjunct2, THEN conjunct2, THEN conjunct1, rule_format,
         OF hG]
    by (simp add: st s503)
  have hH: "\<not> truthy_list (None :: string list option) \<and> \<not> truthy_int None \<and>
            pending (example_world [unavailable]) = unavailable # [] \<and>
            status_code unavailable \<noteq> 200"
    by (simp add: pd st)
  have H: "fst (get_records_list example_fromstring ''Account'' None None
          (example_world [unavailable])) =
     Inl (Exception ''Authentication failed with status code 503: Service Unavailable'')"
    using non_200_aborts
        [where w = "example_world [unavailable]"
           and base = example_base and u = ?u and p = ?p and t = ?t
           and l = unavailable and rest = "[]"
           and f = example_fromstring and object_name = "''Account''"
           and field_names = None and limit = None,
         OF example_configured, THEN conjunct2, THEN conjunct2, THEN conjunct2,
         THEN conjunct2, THEN conjunct2, THEN conjunct2, THEN conjunct2,
         THEN conjunct1, rule_format, OF hH]
    by (simp add: st s503)
  have hI: "\<not> truthy_list (Some ([] :: string list)) \<and> \<not> truthy_int (Some 0) \<and>
            pending (example_world [?l1, unavailable]) = ?l1 # unavailable # [] \<and>
            login_ok example_fromstring ?l1 \<and> status_code unavailable \<noteq> 200"
    by (simp add: pd st login1_ok)
  have I: "fst (get_records_list example_fromstring ''Account'' (Some []) (Some 0)
          (example_world [?l1, unavailable])) =
     Inl (Exception ''Field name query failed with a status of 503: Service Unavailable'')"
    using non_200_aborts
        [where w = "example_world [?l1, unavailable]"
           and base = example_base and u = ?u and p = ?p and t = ?t
           and l = ?l1 and r = unavailable and rest = "[]"
           and f = example_fromstring and object_name = "''Account''"
           and field_names = "Some []" and limit = "Some 0",
         OF example_configured, THEN conjunct2, THEN conjunct2, THEN conjunct2,
         THEN conjunct2, THEN conjunct2, THEN conjunct2, THEN conjunct2,
         THEN conjunct2, THEN conjunct1, rule_format, OF hI]
    by (simp add: st s503)
  have hJ: "\<not> truthy_list (None :: string list option) \<and> \<not> truthy_int None \<and>
            pending (example_world [?l1, describe_ok, ?l1, page1, unavailable]) =
              ?l1 # describe_ok # script [(?l1, page1)] @ unavailable # [] \<and>
            discovery_ok example_fromstring ?l1 describe_ok [''Id'', ''Name''] \<and>
            [''Id'', ''Name''] \<noteq> [] \<and>
            continuing example_fromstring [(?l1, page1)] \<and>
            status_code unavailable \<noteq> 200"
    by (simp add: pd st disc first_page_continuing del: continuing.simps)
  have J: "get_records_list example_fromstring ''Account'' None None
     (example_world [?l1, describe_ok, ?l1, page1, unavailable]) =
     (Inl (Exception ''Authentication failed with status code 503: Service Unavailable''),
      after (example_world [?l1, describe_ok, ?l1, page1, unavailable]) []
        [login_request example_base ?u ?p ?t,
         describe_request example_base ''Account'' (Some ''SID1''),
         login_request example_base ?u ?p ?t,
         data_request example_base ''queryAll/?q=SELECT+Id,Name+FROM+Account'' None
           (Some ''SID1''),
         login_request example_base ?u ?p ?t] [])"
    using non_200_aborts
        [where w = "example_world [?l1, describe_ok, ?l1, page1, unavailable]"
           and base = example_base and u = ?u and p = ?p and t = ?t
           and dl = ?l1 and dr = describe_ok and ss = "[''Id'', ''Name'']"
           and xs = "[(?l1, page1)]" and l = unavailable and rest = "[]"
           and f = example_fromstring and object_name = "''Account''"
           and field_names = None and limit = None,
         OF example_configured, THEN conjunct2, THEN conjunct2, THEN conjunct2,
         THEN conjunct2, THEN conjunct2, THEN conjunct2, THEN conjunct2,
         THEN conjunct2, THEN conjunct2, THEN conjunct1, rule_format, OF hJ]
    by (simp add: st s503 session_of_login1 warnings_of_login1)
  have hK: "\<not> truthy_list (None :: string list option) \<and> \<not> truthy_int None \<and>
            pending (example_world [?l1, describe_ok, ?l1, page1, ?l2, unavailable]) =
              ?l1 # describe_ok # script [(?l1, page1)] @ ?l2 # unavailable # [] \<and>
            discovery_ok example_fromstring ?l1 describe_ok [''Id'', ''Name''] \<and>
            [''Id'', ''Name''] \<noteq> [] \<and>
            continuing example_fromstring [(?l1, page1)] \<and>
            login_ok example_fromstring ?l2 \<and> status_code unavailable \<noteq> 200"
    by (simp add: pd st disc first_page_continuing login2_ok del: continuing.simps)
  have K: "get_records_list example_fromstring ''Account'' None None
     (example_world [?l1, describe_ok, ?l1, page1, ?l2, unavailable]) =
     (Inl ?failed,
      after (example_world [?l1, describe_ok, ?l1, page1, ?l2, unavailable]) []
        [login_request example_base ?u ?p ?t,
         describe_request example_base ''Account'' (Some ''SID1''),
         login_request example_base ?u ?p ?t,
         data_request example_base ''queryAll/?q=SELECT+Id,Name+FROM+Account'' None
           (Some ''SID1''),
         login_request example_base ?u ?p ?t,
         data_request example_base ''queryAll/?q=SELECT+Id,Name+FROM+Account''
           (Some ''/cursor2'') (Some ''SID2'')] [])"
    using non_200_aborts
        [where w = "example_world [?l1, describe_ok, ?l1, page1, ?l2, unavailable]"
           and base = example_base and u = ?u and p = ?p and t = ?t
           and dl = ?l1 and dr = describe_ok and ss = "[''Id'', ''Name'']"
           and xs = "[(?l1, page1)]" and l = ?l2 and r = unavailable and rest = "[]"
           and f = example_fromstring and object_name = "''Account''"
           and field_names = None and limit = None,
         OF example_configured, THEN conjunct2, THEN conjunct2, THEN conjunct2,
         THEN conjunct2, THEN conjunct2, THEN conjunct2, THEN conjunct2,
         THEN conjunct2, THEN conjunct2, THEN conjunct2, THEN conjunct1, rule_format,
         OF hK]
    by (simp add: st s503 session_of_login1 session_of_login2 warnings_of_login1
        warnings_of_login2 cursor_of_def page1_def)
  have hL: "get_query ''Account'' (Some [''Id'']) None = Inr example_query \<and>
            continuing example_fromstring [(?l1, page1)] \<and>
            pending (example_world [?l1, page1, unavailable]) =
              script [(?l1, page1)] @ unavailable # [] \<and>
            status_code unavailable \<noteq> 200"
    by (simp add: pd st example_get_query first_page_continuing del: continuing.simps)
  have L: "get_records_list example_fromstring ''Account'' (Some [''Id'']) None
     (example_world [?l1, page1, unavailable]) =
     (Inl (Exception ''Authentication failed with status code 503: Service Unavailable''),
      after (example_world [?l1, page1, unavailable]) []
        [login_request example_base ?u ?p ?t,
         data_request example_base example_query None (Some ''SID1''),
         login_request example_base ?u ?p ?t] [])"
    using non_200_aborts
        [where w = "example_world [?l1, page1, unavailable]"
           and base = example_base and u = ?u and p = ?p and t = ?t
           and xs = "[(?l1, page1)]" and l = unavailable and rest = "[]"
           and f = example_fromstring and object_name = "''Account''"
           and field_names = "Some [''Id'']" and limit = None and query = example_query,
         OF example_configured, THEN conjunct2, THEN conjunct2, THEN conjunct2,
         THEN conjunct2, THEN conjunct2, THEN conjunct2, THEN conjunct2,
         THEN conjunct2, THEN conjunct2, THEN conjunct2, THEN conjunct2,
         THEN conjunct1, rule_format, OF hL]
    by (simp add: st s503 session_of_login1 warnings_of_login1)
  have hM: "get_query ''Account'' (Some [''Id'']) None = Inr example_query \<and>
            continuing example_fromstring [(?l1, page1)] \<and>
            pending (example_world [?l1, page1, ?l2, unavailable]) =
              script [(?l1, page1)] @ ?l2 # unavailable # [] \<and>
            login_ok example_fromstring ?l2 \<and> status_code unavailable \<noteq> 200"
    by (simp add: pd st example_get_query first_page_continuing login2_ok
        del: continuing.simps)
  have M: "get_records_list example_fromstring ''Account'' (Some [''Id'']) None
     (example_world [?l1, page1, ?l2, unavailable]) =
     (Inl ?failed,
      after (example_world [?l1, page1, ?l2, unavailable]) []
        [login_request example_base ?u ?p ?t,
         data_request example_base example_query None (Some ''SID1''),
         login_request example_base ?u ?p ?t,
         data_request example_base example_query (Some ''/cursor2'') (Some ''SID2'')] [])"
    using non_200_aborts
        [where w = "example_world [?l1, page1, ?l2, unavailable]"
           and base = example_base and u = ?u and p = ?p and t = ?t
           and xs = "[(?l1, page1)]" and l = ?l2 and r = unavailable and rest = "[]"
           and f = example_fromstring and object_name = "''Account''"
           and field_names = "Some [''Id'']" and limit = None and query = example_query,
         OF example_configured, THEN conjunct2, THEN conjunct2, THEN conjunct2,
         THEN conjunct2, THEN conjunct2, THEN conjunct2, THEN conjunct2,
         THEN conjunct2, THEN conjunct2, THEN conjunct2, THEN conjunct2,
         THEN conjunct2, rule_format, OF hM]
    by (simp add: st s503 session_of_login1 session_of_login2 warnings_of_login1
        warnings_of_login2 cursor_of_def page1_def)
  show ?thesis
    by (intro conjI) (rule A B C D E F G H I J K L M)+
qed

end
